theory Spec2Isabelle
  imports Main
begin

section \<open>Data model of backend/server.ts\<close>

text \<open>
  Modelling conventions.
  \<^item> A JavaScript string is a \<open>string\<close>. An optional field (\<open>lemonCustomerId?: string\<close>,
    a nullable column) is an \<open>option\<close>.
  \<^item> \<open>UsageRecord\<close>, \<open>DbUsageRow\<close> and the view that \<open>buildUsageView\<close> returns are
    records with the fields of the TypeScript types, for the values that have these
    types; the counter \<open>generatedCount\<close> is an \<open>int\<close>, and the sum \<open>generatedCount + 1\<close> is
    rounded as JavaScript rounds it.
  \<^item> The usage file is read with a cast and no check, and \<open>store.users[userId]\<close> also finds
    the members that every object inherits. What the code holds in a variable of the type
    \<open>UsageRecord\<close> is therefore a \<open>held\<close> value: a plain object, each of whose fields may
    be missing, or an inherited member. The functions of the store are written on these
    values.
  \<^item> The rows of the table have the types of their columns; the bodies of the
    collaborators' answers are values of the types the code casts them to, or \<open>null\<close>
    where a case is given for it.
\<close>

datatype BillingStatus = Free | Active

record UsageRecord =
  userId :: string
  generatedCount :: int
  billingStatus :: BillingStatus
  lemonCustomerId :: "string option"
  lemonSubscriptionId :: "string option"
  updatedAt :: string

record DbUsageRow =
  user_id :: string
  generated_count :: int
  billing_status :: BillingStatus
  lemon_customer_id :: "string option"
  lemon_subscription_id :: "string option"
  updated_at :: string

text \<open>The object that \<open>buildUsageView\<close> returns for a \<open>UsageRecord\<close>; three of its fields
  share their names with fields of \<open>UsageRecord\<close> and carry the prefix \<open>view\<close> here.\<close>

record UsageView =
  viewUserId :: string
  viewGeneratedCount :: int
  freeLimit :: int
  remainingFree :: int
  viewBillingStatus :: BillingStatus
  hasActiveSubscription :: bool
  canGenerate :: bool

datatype error = Error string

fun message :: "error \<Rightarrow> string" where
  "message (Error m) = m"

subsection \<open>Objects as JavaScript holds them\<close>

text \<open>
  What a read of the property \<open>generatedCount\<close> can give: \<open>undefined\<close> (no such
  property), \<open>null\<close>, \<open>NaN\<close> or a number, which is an integer here. \<open>JSON.stringify\<close>
  leaves out a property that is \<open>undefined\<close> and writes \<open>NaN\<close> as \<open>null\<close>, so a document
  that \<open>JSON.parse\<close> returned holds one of three things there.
\<close>

datatype jsnum = Undefined | Null | NaN | Num int

datatype jsonnum = Absent | JsonNull | JsonNum int

text \<open>The fields of a plain object that is used as a \<open>UsageRecord\<close>; \<open>None\<close> is a
  property that the object does not have. A billing status that is present is one of
  the two statuses.\<close>

record 'n UsageFields =
  userIdOf :: "string option"
  generatedCountOf :: 'n
  billingStatusOf :: "BillingStatus option"
  lemonCustomerIdOf :: "string option"
  lemonSubscriptionIdOf :: "string option"
  updatedAtOf :: "string option"

type_synonym UsageObject = "jsnum UsageFields"

type_synonym StoredUsage = "jsonnum UsageFields"

text \<open>\<open>Member\<close> is a value that every object inherits from \<open>Object.prototype\<close>: a
  function such as \<open>Object\<close> (under \<open>constructor\<close>), or the prototype itself (under
  \<open>__proto__\<close>). It is truthy and has none of the properties of a \<open>UsageRecord\<close>.\<close>

datatype held = Plain UsageObject | Member

definition inheritedMembers :: "string list" where
  "inheritedMembers =
     [''constructor'', ''__defineGetter__'', ''__defineSetter__'', ''hasOwnProperty'',
      ''__lookupGetter__'', ''__lookupSetter__'', ''isPrototypeOf'', ''propertyIsEnumerable'',
      ''toString'', ''valueOf'', ''__proto__'', ''toLocaleString'']"

definition noFields :: UsageObject where
  "noFields =
     \<lparr>userIdOf = None, generatedCountOf = Undefined, billingStatusOf = None,
      lemonCustomerIdOf = None, lemonSubscriptionIdOf = None, updatedAtOf = None\<rparr>"

text \<open>The properties that \<open>record.generatedCount\<close>, \<open>record.billingStatus\<close>, ... read and
  that \<open>{...record}\<close> copies.\<close>

fun fieldsOf :: "held \<Rightarrow> UsageObject" where
  "fieldsOf (Plain object) = object"
| "fieldsOf Member = noFields"

definition ofRecord :: "UsageRecord \<Rightarrow> UsageObject" where
  "ofRecord r =
     \<lparr>userIdOf = Some (userId r), generatedCountOf = Num (generatedCount r),
      billingStatusOf = Some (billingStatus r), lemonCustomerIdOf = lemonCustomerId r,
      lemonSubscriptionIdOf = lemonSubscriptionId r, updatedAtOf = Some (updatedAt r)\<rparr>"

text \<open>\<open>JSON.stringify\<close> of an object (\<open>dump\<close>) and \<open>JSON.parse\<close> of the text (\<open>load\<close>).\<close>

fun dumpNum :: "jsnum \<Rightarrow> jsonnum" where
  "dumpNum Undefined = Absent"
| "dumpNum Null = JsonNull"
| "dumpNum NaN = JsonNull"
| "dumpNum (Num n) = JsonNum n"

fun loadNum :: "jsonnum \<Rightarrow> jsnum" where
  "loadNum Absent = Undefined"
| "loadNum JsonNull = Null"
| "loadNum (JsonNum n) = Num n"

definition dump :: "UsageObject \<Rightarrow> StoredUsage" where
  "dump object =
     \<lparr>userIdOf = userIdOf object, generatedCountOf = dumpNum (generatedCountOf object),
      billingStatusOf = billingStatusOf object, lemonCustomerIdOf = lemonCustomerIdOf object,
      lemonSubscriptionIdOf = lemonSubscriptionIdOf object, updatedAtOf = updatedAtOf object\<rparr>"

definition load :: "StoredUsage \<Rightarrow> UsageObject" where
  "load entry =
     \<lparr>userIdOf = userIdOf entry, generatedCountOf = loadNum (generatedCountOf entry),
      billingStatusOf = billingStatusOf entry, lemonCustomerIdOf = lemonCustomerIdOf entry,
      lemonSubscriptionIdOf = lemonSubscriptionIdOf entry, updatedAtOf = updatedAtOf entry\<rparr>"

subsection \<open>Numbers\<close>

text \<open>
  A JavaScript number is a double. An integer of absolute value at most \<open>2^53\<close> is a
  double; the sum \<open>n + 1\<close> is rounded to the nearest double, to the even one of two
  nearest: \<open>toDouble\<close> keeps the 53 leading bits. The difference
  \<open>FREE_IMAGE_LIMIT - generatedCount\<close> is taken exactly.
\<close>

fun bitLength :: "nat \<Rightarrow> nat" where
  "bitLength n = (if n = 0 then 0 else Suc (bitLength (n div 2)))"

declare bitLength.simps [simp del]

definition toDouble :: "int \<Rightarrow> int" where
  "toDouble k =
     (let m = nat (abs k); e = bitLength m - 53
      in if e = 0 then k
         else
           (let q = m div 2 ^ e; r = m mod 2 ^ e; half = 2 ^ (e - 1);
                rounded = (if half < r \<or> (r = half \<and> odd q) then q + 1 else q)
            in sgn k * int (rounded * 2 ^ e)))"

text \<open>\<open>k - v\<close>, \<open>Math.max(0, v)\<close>, \<open>v > 0\<close> and \<open>v + 1\<close>, where \<open>v\<close> is what a property read
  gave: \<open>undefined\<close> counts as \<open>NaN\<close> and \<open>null\<close> as 0.\<close>

fun jsSubtractFrom :: "int \<Rightarrow> jsnum \<Rightarrow> jsnum" where
  "jsSubtractFrom k Undefined = NaN"
| "jsSubtractFrom k Null = Num k"
| "jsSubtractFrom k NaN = NaN"
| "jsSubtractFrom k (Num n) = Num (k - n)"

fun jsMax0 :: "jsnum \<Rightarrow> jsnum" where
  "jsMax0 (Num n) = Num (max 0 n)"
| "jsMax0 Null = Num 0"
| "jsMax0 v = NaN"

fun jsPositive :: "jsnum \<Rightarrow> bool" where
  "jsPositive (Num n) = (0 < n)"
| "jsPositive v = False"

fun jsAdd1 :: "jsnum \<Rightarrow> jsnum" where
  "jsAdd1 Undefined = NaN"
| "jsAdd1 Null = Num 1"
| "jsAdd1 NaN = NaN"
| "jsAdd1 (Num n) = Num (toDouble (n + 1))"

text \<open>The column \<open>generated_count\<close> is an \<open>integer\<close> of 32 bits.\<close>

definition int4 :: "int \<Rightarrow> bool" where
  "int4 n = (- 2147483648 \<le> n \<and> n \<le> 2147483647)"

subsection \<open>The process and its surroundings\<close>

text \<open>
  The usage file \<open>backend/data/usage.json\<close> is in one of four states, which
  \<open>ensureUsageStore\<close> tells apart: it is absent; or it holds a document whose \<open>users\<close> is
  an object with an entry for each user; or it holds a document whose \<open>users\<close> is an
  array (which passes the test \<open>typeof parsed.users !== "object"\<close>); or it holds
  anything else (text that is not JSON, JSON without a truthy \<open>users\<close> object). An entry
  of a document is an object as \<open>JSON.parse\<close> returns it. Of an array only this is
  kept: a property that the code sets on it under a user id is not written by
  \<open>JSON.stringify\<close>; its elements, and the names that arrays add to those of every
  object (indices, \<open>length\<close>, the array methods), are left out. Calls of the file system
  themselves are taken to succeed.

  The table \<open>app_usage\<close> is the list of its rows, with \<open>user_id\<close> as the key of a
  row. Every operation on it (a select, an insert, an upsert) asks the fault schedule
  \<open>faults\<close> whether it fails: the schedule is indexed by the number of remote operations
  made so far, so that any pattern of outages is some schedule.

  \<open>new Date().toISOString()\<close> reads the next value of \<open>clock\<close>. A timestamp is the
  string that it gave; the table, whose column \<open>updated_at\<close> is a \<open>timestamptz\<close>, is
  taken to give a timestamp back as it was sent.
\<close>

datatype usage_file =
    NoFile
  | Unreadable
  | Document "string \<rightharpoonup> StoredUsage"
  | UsersArray

text \<open>The value of \<open>store.users\<close> in memory.\<close>

datatype users_object = PlainUsers "string \<rightharpoonup> UsageObject" | ArrayUsers

record UsageStore =
  users :: users_object

text \<open>
  Requests that leave the process are appended to \<open>sent\<close>, in the order in which they
  are made: a checkout request to Lemon Squeezy (user id, e-mail), a chat completion
  request to LongCat (workflow, operation, prompt) and an image request to Reve (endpoint
  and body). A request is recorded when \<open>fetch\<close> is called, whatever becomes of it.
\<close>

datatype PostProcess = RemoveBackground | Upscale int

record ReveRequest =
  instruction :: string
  reference_image :: "string option"
  postprocessing :: "PostProcess list"

datatype ext_call =
    LemonCheckoutCall string "string option"
  | LongcatCall string "string option" string
  | ReveCall string ReveRequest

record world =
  env :: "string \<rightharpoonup> string"
  supabase :: bool
  remoteRows :: "DbUsageRow list"
  faults :: "nat \<Rightarrow> bool"
  remoteOps :: nat
  usageFile :: usage_file
  clock :: "nat \<Rightarrow> string"
  clockReads :: nat
  sent :: "ext_call list"

definition FREE_IMAGE_LIMIT :: int where
  "FREE_IMAGE_LIMIT = 1"

definition newDate :: "world \<Rightarrow> string \<times> world" where
  "newDate w = (clock w (clockReads w), w\<lparr>clockReads := clockReads w + 1\<rparr>)"

definition remoteOp :: "world \<Rightarrow> bool \<times> world" where
  "remoteOp w = (faults w (remoteOps w), w\<lparr>remoteOps := remoteOps w + 1\<rparr>)"

subsection \<open>Strings\<close>

text \<open>\<open>String.prototype.trim\<close> on the one-byte characters: tab, line feed, vertical tab,
  form feed, carriage return, space and the no-break space.\<close>

definition isSpace :: "char \<Rightarrow> bool" where
  "isSpace c = (of_char c \<in> {9, 10, 11, 12, 13, 32, 160 :: nat})"

definition trim :: "string \<Rightarrow> string" where
  "trim s = rev (dropWhile isSpace (rev (dropWhile isSpace s)))"

definition getEnv :: "string \<Rightarrow> world \<Rightarrow> string option" where
  "getEnv name w =
     (case env w name of
        None \<Rightarrow> None
      | Some v \<Rightarrow> if v = [] \<or> trim v = [] then None else Some v)"

definition getLemonApiKey :: "world \<Rightarrow> string option" where
  "getLemonApiKey = getEnv ''LEMON_SQUEEZY_API_KEY''"

definition getLemonStoreId :: "world \<Rightarrow> string option" where
  "getLemonStoreId = getEnv ''LEMON_SQUEEZY_STORE_ID''"

definition getLemonVariantId :: "world \<Rightarrow> string option" where
  "getLemonVariantId = getEnv ''LEMON_SQUEEZY_VARIANT_ID''"

definition getLemonWebhookSecret :: "world \<Rightarrow> string option" where
  "getLemonWebhookSecret = getEnv ''LEMON_SQUEEZY_WEBHOOK_SECRET''"

definition getLongcatKey :: "world \<Rightarrow> string option" where
  "getLongcatKey = getEnv ''LONGCAT_API_KEY''"

definition getReveKey :: "world \<Rightarrow> error + string" where
  "getReveKey w =
     (case getEnv ''REVE_API_KEY'' w of
        None \<Rightarrow> Inl (Error ''Missing REVE_API_KEY in .env'')
      | Some k \<Rightarrow> Inr k)"

section \<open>The usage store\<close>

subsection \<open>Local file backend\<close>

definition ensureUsageStore :: "world \<Rightarrow> UsageStore \<times> world" where
  "ensureUsageStore w =
     (case usageFile w of
        NoFile \<Rightarrow>
          (let initial = \<lparr>users = PlainUsers Map.empty\<rparr>
           in (initial, w\<lparr>usageFile := Document Map.empty\<rparr>))
      | Unreadable \<Rightarrow> (\<lparr>users = PlainUsers Map.empty\<rparr>, w)
      | Document parsed \<Rightarrow> (\<lparr>users = PlainUsers (\<lambda>uid. map_option load (parsed uid))\<rparr>, w)
      | UsersArray \<Rightarrow> (\<lparr>users = ArrayUsers\<rparr>, w))"

definition saveUsageStore :: "UsageStore \<Rightarrow> world \<Rightarrow> world" where
  "saveUsageStore store w =
     w\<lparr>usageFile :=
         (case users store of
            PlainUsers entries \<Rightarrow> Document (\<lambda>uid. map_option dump (entries uid))
          | ArrayUsers \<Rightarrow> UsersArray)\<rparr>"

text \<open>
  \<open>store.users[userId]\<close> as a read: the object's own entry, or else the member that the
  object inherits under that name, or else \<open>undefined\<close> (\<open>None\<close>). As an assignment: the
  entry is set, except that under the name \<open>__proto__\<close>, when the object has no entry of
  its own of that name, the inherited setter takes the value for the prototype of the
  object and no entry is made.
\<close>

definition lookupUser :: "users_object \<Rightarrow> string \<Rightarrow> held option" where
  "lookupUser us uid =
     (case (case us of PlainUsers entries \<Rightarrow> entries uid | ArrayUsers \<Rightarrow> None) of
        Some own \<Rightarrow> Some (Plain own)
      | None \<Rightarrow> if uid \<in> set inheritedMembers then Some Member else None)"

definition assignUser :: "users_object \<Rightarrow> string \<Rightarrow> UsageObject \<Rightarrow> users_object" where
  "assignUser us uid v =
     (case us of
        PlainUsers entries \<Rightarrow>
          if uid = ''__proto__'' \<and> entries uid = None then PlainUsers entries
          else PlainUsers (entries(uid \<mapsto> v))
      | ArrayUsers \<Rightarrow> ArrayUsers)"

definition getOrCreateLocalUsageRecord :: "string \<Rightarrow> world \<Rightarrow> held \<times> world" where
  "getOrCreateLocalUsageRecord uid w =
     (case ensureUsageStore w of (store, w1) \<Rightarrow>
        (case lookupUser (users store) uid of
           Some existing \<Rightarrow> (existing, w1)
         | None \<Rightarrow>
             (case newDate w1 of (now, w2) \<Rightarrow>
                (let created = \<lparr>userIdOf = Some uid, generatedCountOf = Num 0,
                       billingStatusOf = Some Free, lemonCustomerIdOf = None,
                       lemonSubscriptionIdOf = None, updatedAtOf = Some now\<rparr>
                 in (Plain created,
                     saveUsageStore (store\<lparr>users := assignUser (users store) uid created\<rparr>) w2)))))"

text \<open>
  An updater is given as the function from the properties of the record it receives to
  the properties of the object it returns. Both updaters of the program return a new
  object, \<open>{...record, generatedCount: record.generatedCount + 1}\<close> and
  \<open>{...record, billingStatus}\<close>; so the assignment \<open>next.updatedAt = ...\<close> changes no other
  object.
\<close>

definition updateLocalUsageRecord ::
  "string \<Rightarrow> (UsageObject \<Rightarrow> UsageObject) \<Rightarrow> world \<Rightarrow> UsageObject \<times> world" where
  "updateLocalUsageRecord uid updater w =
     (case ensureUsageStore w of (store, w1) \<Rightarrow>
        (case (case lookupUser (users store) uid of
                 Some existing \<Rightarrow> (existing, w1)
               | None \<Rightarrow>
                   (case newDate w1 of (now, w2) \<Rightarrow>
                      (Plain \<lparr>userIdOf = Some uid, generatedCountOf = Num 0,
                              billingStatusOf = Some Free, lemonCustomerIdOf = None,
                              lemonSubscriptionIdOf = None, updatedAtOf = Some now\<rparr>, w2)))
         of (current, w3) \<Rightarrow>
           (case newDate w3 of (stamp, w4) \<Rightarrow>
              (let next = (updater (fieldsOf current))\<lparr>updatedAtOf := Some stamp\<rparr>
               in (next,
                   saveUsageStore (store\<lparr>users := assignUser (users store) uid next\<rparr>) w4)))))"

subsection \<open>Rows and views\<close>

definition mapDbUsageRowToUsageRecord :: "DbUsageRow \<Rightarrow> UsageRecord" where
  "mapDbUsageRowToUsageRecord row =
     \<lparr>userId = user_id row, generatedCount = generated_count row,
      billingStatus = billing_status row, lemonCustomerId = lemon_customer_id row,
      lemonSubscriptionId = lemon_subscription_id row, updatedAt = updated_at row\<rparr>"

text \<open>\<open>buildUsageView\<close> at its declared type, for a \<open>UsageRecord\<close>.\<close>

definition buildUsageView :: "UsageRecord \<Rightarrow> UsageView" where
  "buildUsageView r =
     (let remaining = max 0 (FREE_IMAGE_LIMIT - generatedCount r);
          active = (billingStatus r = Active);
          can = (active \<or> remaining > 0)
      in \<lparr>viewUserId = userId r, viewGeneratedCount = generatedCount r,
          freeLimit = FREE_IMAGE_LIMIT, remainingFree = remaining,
          viewBillingStatus = billingStatus r, hasActiveSubscription = active,
          canGenerate = can\<rparr>)"

text \<open>The same function on whatever value \<open>getUsageRecord\<close> hands over, and the object
  it then returns: a property may be \<open>undefined\<close>, and \<open>remainingFree\<close> may be \<open>NaN\<close>.\<close>

record ViewObject =
  viewUserIdOf :: "string option"
  viewGeneratedCountOf :: jsnum
  freeLimitOf :: int
  remainingFreeOf :: jsnum
  viewBillingStatusOf :: "BillingStatus option"
  hasActiveSubscriptionOf :: bool
  canGenerateOf :: bool

definition buildUsageViewOf :: "held \<Rightarrow> ViewObject" where
  "buildUsageViewOf v =
     (let remaining = jsMax0 (jsSubtractFrom FREE_IMAGE_LIMIT (generatedCountOf (fieldsOf v)));
          active = (billingStatusOf (fieldsOf v) = Some Active);
          can = (active \<or> jsPositive remaining)
      in \<lparr>viewUserIdOf = userIdOf (fieldsOf v),
          viewGeneratedCountOf = generatedCountOf (fieldsOf v),
          freeLimitOf = FREE_IMAGE_LIMIT, remainingFreeOf = remaining,
          viewBillingStatusOf = billingStatusOf (fieldsOf v),
          hasActiveSubscriptionOf = active, canGenerateOf = can\<rparr>)"

definition viewObject :: "UsageView \<Rightarrow> ViewObject" where
  "viewObject v =
     \<lparr>viewUserIdOf = Some (viewUserId v), viewGeneratedCountOf = Num (viewGeneratedCount v),
      freeLimitOf = freeLimit v, remainingFreeOf = Num (remainingFree v),
      viewBillingStatusOf = Some (viewBillingStatus v),
      hasActiveSubscriptionOf = hasActiveSubscription v, canGenerateOf = canGenerate v\<rparr>"

subsection \<open>Remote backend and the fallback\<close>

text \<open>
  The queries of the Supabase client on the rows: \<open>select(...).eq("user_id", uid)\<close>,
  \<open>insert(row)\<close> and \<open>upsert(row, {onConflict: "user_id"})\<close>.

  The client sends the object of an upsert as JSON, so a property that is \<open>undefined\<close> is
  not sent; the table takes the columns of the statement from the properties sent, and a
  column that is not sent keeps its value in a row that exists and takes its default
  (\<open>0\<close>, \<open>'free'\<close>) in a new row. The table refuses a \<open>generated_count\<close> that is \<open>null\<close>
  (which is how \<open>NaN\<close> is sent) or no 32-bit integer. \<open>upsertedRow\<close> is the row that the
  table holds after the upsert, or \<open>None\<close> when it refuses.
\<close>

definition selectRow :: "string \<Rightarrow> DbUsageRow list \<Rightarrow> DbUsageRow option" where
  "selectRow uid rows = find (\<lambda>row. user_id row = uid) rows"

definition insertRow :: "DbUsageRow \<Rightarrow> DbUsageRow list \<Rightarrow> DbUsageRow list" where
  "insertRow new rows = rows @ [new]"

definition upsertRow :: "DbUsageRow \<Rightarrow> DbUsageRow list \<Rightarrow> DbUsageRow list" where
  "upsertRow new rows =
     (if selectRow (user_id new) rows = None then insertRow new rows
      else map (\<lambda>row. if user_id row = user_id new then new else row) rows)"

definition upsertedRow :: "string \<Rightarrow> UsageObject \<Rightarrow> DbUsageRow list \<Rightarrow> DbUsageRow option" where
  "upsertedRow uid next rows =
     (let base = (case selectRow uid rows of
                    Some row \<Rightarrow> row
                  | None \<Rightarrow> \<lparr>user_id = uid, generated_count = 0, billing_status = Free,
                             lemon_customer_id = None, lemon_subscription_id = None,
                             updated_at = []\<rparr>);
          sent_row = (\<lambda>n. \<lparr>user_id = uid, generated_count = n,
                            billing_status = (case billingStatusOf next of
                                                Some s \<Rightarrow> s | None \<Rightarrow> billing_status base),
                            lemon_customer_id = lemonCustomerIdOf next,
                            lemon_subscription_id = lemonSubscriptionIdOf next,
                            updated_at = (case updatedAtOf next of
                                            Some t \<Rightarrow> t | None \<Rightarrow> updated_at base)\<rparr>)
      in case generatedCountOf next of
           Undefined \<Rightarrow> Some (sent_row (generated_count base))
         | Null \<Rightarrow> None
         | NaN \<Rightarrow> None
         | Num n \<Rightarrow> if int4 n then Some (sent_row n) else None)"

text \<open>The result \<open>Inl\<close> is the error that the source throws; \<open>Inr None\<close> is its
  \<open>return null\<close> when no client was created at start-up.\<close>

definition getOrCreateSupabaseUsageRecord ::
  "string \<Rightarrow> world \<Rightarrow> (error + UsageRecord option) \<times> world" where
  "getOrCreateSupabaseUsageRecord uid w =
     (if \<not> supabase w then (Inr None, w)
      else
        (case remoteOp w of (fetchError, w1) \<Rightarrow>
           if fetchError then (Inl (Error ''fetchError''), w1)
           else
             (case selectRow uid (remoteRows w1) of
                Some existing \<Rightarrow> (Inr (Some (mapDbUsageRowToUsageRecord existing)), w1)
              | None \<Rightarrow>
                  (case newDate w1 of (now, w2) \<Rightarrow>
                     (case remoteOp w2 of (insertError, w3) \<Rightarrow>
                        if insertError then (Inl (Error ''insertError''), w3)
                        else
                          (let inserted = \<lparr>user_id = uid, generated_count = 0,
                                 billing_status = Free, lemon_customer_id = None,
                                 lemon_subscription_id = None, updated_at = now\<rparr>
                           in (Inr (Some (mapDbUsageRowToUsageRecord inserted)),
                               w3\<lparr>remoteRows := insertRow inserted (remoteRows w3)\<rparr>)))))))"

definition getUsageRecord :: "string \<Rightarrow> world \<Rightarrow> held \<times> world" where
  "getUsageRecord uid w =
     (if \<not> supabase w then getOrCreateLocalUsageRecord uid w
      else
        (case getOrCreateSupabaseUsageRecord uid w of
           (Inr (Some remote), w1) \<Rightarrow> (Plain (ofRecord remote), w1)
         | (Inr None, w1) \<Rightarrow> getOrCreateLocalUsageRecord uid w1
         | (Inl err, w1) \<Rightarrow> getOrCreateLocalUsageRecord uid w1))"

text \<open>The upsert fails when the fault schedule says so or when the table refuses the
  row; either way \<open>updateError\<close> is thrown and caught, and the update is made in the usage
  file.\<close>

definition updateUsageRecord ::
  "string \<Rightarrow> (UsageObject \<Rightarrow> UsageObject) \<Rightarrow> world \<Rightarrow> UsageObject \<times> world" where
  "updateUsageRecord uid updater w =
     (if \<not> supabase w then updateLocalUsageRecord uid updater w
      else
        (case getUsageRecord uid w of (current, w1) \<Rightarrow>
           (case newDate w1 of (stamp, w2) \<Rightarrow>
              (let next = (updater (fieldsOf current))\<lparr>updatedAtOf := Some stamp\<rparr>
               in (case remoteOp w2 of (fault, w3) \<Rightarrow>
                     (case (if fault then None else upsertedRow uid next (remoteRows w3)) of
                        None \<Rightarrow> updateLocalUsageRecord uid updater w3
                      | Some updated \<Rightarrow>
                          (ofRecord (mapDbUsageRowToUsageRecord updated),
                           w3\<lparr>remoteRows := upsertRow updated (remoteRows w3)\<rparr>)))))))"

definition getUsageView :: "string \<Rightarrow> world \<Rightarrow> ViewObject \<times> world" where
  "getUsageView uid w =
     (case getUsageRecord uid w of (r, w1) \<Rightarrow> (buildUsageViewOf r, w1))"

definition markGenerationUsage :: "string \<Rightarrow> world \<Rightarrow> UsageObject \<times> world" where
  "markGenerationUsage uid =
     updateUsageRecord uid
       (\<lambda>r. r\<lparr>generatedCountOf := jsAdd1 (generatedCountOf r)\<rparr>)"

definition setBillingStatus :: "string \<Rightarrow> BillingStatus \<Rightarrow> world \<Rightarrow> UsageObject \<times> world" where
  "setBillingStatus uid status =
     updateUsageRecord uid (\<lambda>r. r\<lparr>billingStatusOf := Some status\<rparr>)"

section \<open>JSON values\<close>

text \<open>
  A value that \<open>JSON.parse\<close> or the body parser returns. An object is the list of its
  members, read with \<open>map_of\<close>; a number is an integer here (no claim reads a number of
  a payload). \<open>property v part\<close> is \<open>Some (v[part])\<close> when \<open>part in v\<close> holds and
  \<open>None\<close> otherwise: an array has its indices in canonical decimal form and \<open>length\<close>.
  Members that every object inherits from its prototype are left out; the program asks
  only for the names \<open>meta\<close>, \<open>data\<close>, \<open>attributes\<close>, \<open>custom_data\<close>, \<open>user_id\<close>,
  \<open>event_name\<close> and for the fields of its own request bodies.
\<close>

datatype json =
    JNull
  | JBool bool
  | JNum int
  | JStr string
  | JArr "json list"
  | JObj "(string \<times> json) list"

fun isObject :: "json \<Rightarrow> bool" where
  "isObject (JObj members) = True"
| "isObject (JArr items) = True"
| "isObject v = False"

definition isDigit :: "char \<Rightarrow> bool" where
  "isDigit c = (48 \<le> (of_char c :: nat) \<and> (of_char c :: nat) \<le> 57)"

definition arrayIndex :: "string \<Rightarrow> nat option" where
  "arrayIndex s =
     (if s = [] \<or> \<not> list_all isDigit s \<or> (1 < length s \<and> hd s = CHR ''0'') then None
      else Some (foldl (\<lambda>n c. 10 * n + (of_char c - 48)) 0 s))"

fun property :: "json \<Rightarrow> string \<Rightarrow> json option" where
  "property (JObj members) part = map_of members part"
| "property (JArr items) part =
     (if part = ''length'' then Some (JNum (int (length items)))
      else
        (case arrayIndex part of
           None \<Rightarrow> None
         | Some i \<Rightarrow> if i < length items then Some (items ! i) else None))"
| "property v part = None"

text \<open>What JavaScript takes for true in \<open>if (s)\<close> when \<open>s\<close> is a string, \<open>null\<close> or
  \<open>undefined\<close>: a string that is not empty.\<close>

fun truthy :: "string option \<Rightarrow> bool" where
  "truthy None = False"
| "truthy (Some s) = (s \<noteq> [])"

text \<open>Functions of the platform that the program calls and does not define: the
  hex digest of \<open>crypto.createHmac("sha256", secret).update(body)\<close>, \<open>JSON.parse\<close>
  (\<open>None\<close> when it throws) and the coercion \<open>Number(value)\<close> of a field that may be
  absent (\<open>None\<close> when the result is no integer).\<close>

record platform =
  hmacSha256Hex :: "string \<Rightarrow> string \<Rightarrow> string"
  jsonParse :: "string \<Rightarrow> json option"
  toNumber :: "json option \<Rightarrow> int option"

section \<open>The billing webhook\<close>

fun readNestedString :: "json \<Rightarrow> string list \<Rightarrow> string option" where
  "readNestedString current [] = (case current of JStr s \<Rightarrow> Some s | _ \<Rightarrow> None)"
| "readNestedString current (part # pathParts) =
     (if \<not> isObject current then None
      else
        (case property current part of
           None \<Rightarrow> None
         | Some v \<Rightarrow> readNestedString v pathParts))"

definition extractLemonUserId :: "json \<Rightarrow> string option" where
  "extractLemonUserId payload =
     (let fromMetaCustom = readNestedString payload [''meta'', ''custom_data'', ''user_id'']
      in if truthy fromMetaCustom then fromMetaCustom
         else
           (let fromDataCustom =
                  readNestedString payload [''data'', ''attributes'', ''custom_data'', ''user_id'']
            in if truthy fromDataCustom then fromDataCustom
               else readNestedString payload [''data'', ''attributes'', ''user_id'']))"

text \<open>\<open>Buffer.from(s)\<close> is the UTF-8 encoding of \<open>s\<close>: one byte for a character below
  128, two bytes for the others of this one-byte alphabet.\<close>

definition utf8 :: "char \<Rightarrow> string" where
  "utf8 c =
     (let n = (of_char c :: nat)
      in if n < 128 then [c] else [char_of (192 + n div 64), char_of (128 + n mod 64)])"

definition bufferFrom :: "string \<Rightarrow> string" where
  "bufferFrom s = concat (map utf8 s)"

text \<open>\<open>crypto.timingSafeEqual\<close> throws on buffers of different lengths.\<close>

definition timingSafeEqual :: "string \<Rightarrow> string \<Rightarrow> error + bool" where
  "timingSafeEqual a b =
     (if length a \<noteq> length b then Inl (Error ''Input buffers must have the same byte length'')
      else Inr (a = b))"

definition verifyLemonSignature ::
  "platform \<Rightarrow> string \<Rightarrow> string option \<Rightarrow> world \<Rightarrow> error + bool" where
  "verifyLemonSignature p rawBody signatureHeader w =
     (case getLemonWebhookSecret w of
        None \<Rightarrow> Inr True
      | Some secret \<Rightarrow>
          if \<not> truthy signatureHeader then Inr False
          else
            (let computed = hmacSha256Hex p secret rawBody;
                 a = bufferFrom computed;
                 b = bufferFrom (case signatureHeader of Some h \<Rightarrow> h | None \<Rightarrow> [])
             in if length a \<noteq> length b then Inr False else timingSafeEqual a b))"

definition activationEvents :: "string list" where
  "activationEvents =
     [''order_created'', ''subscription_created'', ''subscription_resumed'',
      ''subscription_unpaused'', ''subscription_payment_success'']"

definition deactivationEvents :: "string list" where
  "deactivationEvents =
     [''subscription_cancelled'', ''subscription_expired'', ''subscription_paused'',
      ''subscription_payment_failed'']"

text \<open>The answers of the webhook route. \<open>WebhookUnhandled\<close> stands for an exception that
  leaves the handler, which has no \<open>try\<close> of its own: no answer is sent.\<close>

datatype webhook_response =
    WebhookBadRequest string
  | WebhookUnauthorized string
  | WebhookOk bool
  | WebhookUnhandled error

fun webhookStatus :: "webhook_response \<Rightarrow> nat option" where
  "webhookStatus (WebhookBadRequest m) = Some 400"
| "webhookStatus (WebhookUnauthorized m) = Some 401"
| "webhookStatus (WebhookOk ignored) = Some 200"
| "webhookStatus (WebhookUnhandled e) = None"

text \<open>The route \<open>POST /api/billing/lemon/webhook\<close>. The body is \<open>Some\<close> bytes when the
  raw body parser produced a \<open>Buffer\<close>; \<open>WebhookOk ignored\<close> is the answer
  \<open>{ok: true}\<close> with or without \<open>ignored: true\<close>.\<close>

definition post_billing_lemon_webhook ::
  "platform \<Rightarrow> string option \<Rightarrow> string option \<Rightarrow> world \<Rightarrow> webhook_response \<times> world" where
  "post_billing_lemon_webhook p body xSignature w =
     (case body of
        None \<Rightarrow> (WebhookBadRequest ''Invalid webhook body.'', w)
      | Some rawBody \<Rightarrow>
          (let signature = (if truthy xSignature then xSignature else None)
           in case verifyLemonSignature p rawBody signature w of
                Inl err \<Rightarrow> (WebhookUnhandled err, w)
              | Inr False \<Rightarrow> (WebhookUnauthorized ''Invalid webhook signature.'', w)
              | Inr True \<Rightarrow>
                  (case jsonParse p rawBody of
                     None \<Rightarrow> (WebhookBadRequest ''Webhook payload is not valid JSON.'', w)
                   | Some payload \<Rightarrow>
                       if \<not> isObject payload
                       then (WebhookBadRequest ''Webhook payload format is invalid.'', w)
                       else
                         (let eventName = readNestedString payload [''meta'', ''event_name''];
                              uid = extractLemonUserId payload
                          in case (eventName, uid) of
                               (Some name, Some u) \<Rightarrow>
                                 if name = [] \<or> u = [] then (WebhookOk True, w)
                                 else
                                   (let w1 = (if name \<in> set activationEvents
                                              then snd (setBillingStatus u Active w) else w);
                                        w2 = (if name \<in> set deactivationEvents
                                              then snd (setBillingStatus u Free w1) else w1)
                                    in (WebhookOk False, w2))
                             | _ \<Rightarrow> (WebhookOk True, w)))))"

section \<open>Collaborators\<close>

text \<open>
  What the network does with a request is not decided by the program. Each handler
  sends at most one request to each collaborator, so a handler takes one answer for
  each: \<open>fetch\<close> rejects (an exception), or the response has a status outside 200-299,
  or its body is not JSON (\<open>response.json()\<close> throws), or the body is a value of the
  type the code casts it to. For the image provider the body may also be the JSON value
  \<open>null\<close>, with either kind of status; bodies that are JSON strings, numbers or booleans
  are left out.
\<close>

datatype LemonCheckoutResult =
    CheckoutOk string
  | CheckoutFailed string "nat option"

datatype checkout_answer =
    CheckoutRejects error
  | CheckoutNotOk nat
  | CheckoutBodyInvalid error
  | CheckoutBody "string option"

datatype longcat_answer =
    LongcatRejects
  | LongcatNotOk
  | LongcatBodyInvalid
  | LongcatBody "string option"

record ReveApiResponse =
  image :: string
  version :: string
  content_violation :: bool
  request_id :: string
  credits_used :: int
  credits_remaining :: int

datatype reve_answer =
    ReveRejects error
  | ReveBodyInvalid error
  | ReveNotOk "string option" "string option"
  | ReveNotOkNull
  | ReveOk ReveApiResponse
  | ReveOkNull

record network =
  lemon :: checkout_answer
  longcat :: longcat_answer
  reve :: reve_answer

definition send :: "ext_call \<Rightarrow> world \<Rightarrow> world" where
  "send c w = w\<lparr>sent := sent w @ [c]\<rparr>"

definition createLemonCheckoutUrl ::
  "checkout_answer \<Rightarrow> string \<Rightarrow> string option \<Rightarrow> world
     \<Rightarrow> (error + LemonCheckoutResult) \<times> world" where
  "createLemonCheckoutUrl answer uid email w =
     (case (getLemonApiKey w, getLemonStoreId w, getLemonVariantId w) of
        (Some apiKey, Some storeId, Some variantId) \<Rightarrow>
          (let w1 = send (LemonCheckoutCall uid email) w
           in case answer of
                CheckoutRejects e \<Rightarrow> (Inl e, w1)
              | CheckoutNotOk st \<Rightarrow>
                  (Inr (CheckoutFailed
                     ''Lemon checkout creation failed. Verify API key permissions and that store/variant IDs are correct.''
                     (Some st)), w1)
              | CheckoutBodyInvalid e \<Rightarrow> (Inl e, w1)
              | CheckoutBody url \<Rightarrow>
                  if \<not> truthy url
                  then (Inr (CheckoutFailed
                          ''Lemon checkout URL was empty. Check your product variant configuration.''
                          None), w1)
                  else (Inr (CheckoutOk (case url of Some u \<Rightarrow> u | None \<Rightarrow> [])), w1))
      | _ \<Rightarrow>
          (Inr (CheckoutFailed
             ''Missing Lemon configuration. Set LEMON_SQUEEZY_API_KEY, LEMON_SQUEEZY_STORE_ID, and LEMON_SQUEEZY_VARIANT_ID.''
             None), w))"

definition clampPrompt :: "string \<Rightarrow> string" where
  "clampPrompt v = take 2560 (trim v)"

record PromptResult =
  prompt :: string
  optimized :: bool
  source :: string

definition optimizePromptWithLongcat ::
  "longcat_answer \<Rightarrow> string \<Rightarrow> string \<Rightarrow> string option \<Rightarrow> world \<Rightarrow> PromptResult \<times> world" where
  "optimizePromptWithLongcat answer p workflow operation w =
     (let originalPrompt = clampPrompt p;
          original = \<lparr>prompt = originalPrompt, optimized = False, source = ''original''\<rparr>
      in case getLongcatKey w of
           None \<Rightarrow> (original, w)
         | Some longcatKey \<Rightarrow>
             if originalPrompt = [] then (original, w)
             else
               (let w1 = send (LongcatCall workflow operation originalPrompt) w
                in case answer of
                     LongcatRejects \<Rightarrow> (original, w1)
                   | LongcatNotOk \<Rightarrow> (original, w1)
                   | LongcatBodyInvalid \<Rightarrow> (original, w1)
                   | LongcatBody content \<Rightarrow>
                       (let opt = clampPrompt
                              (case content of
                                 Some c \<Rightarrow> if c \<noteq> [] then c else originalPrompt
                               | None \<Rightarrow> originalPrompt)
                        in (\<lparr>prompt = (if opt \<noteq> [] then opt else originalPrompt),
                             optimized = (opt \<noteq> [] \<and> opt \<noteq> originalPrompt),
                             source = ''longcat''\<rparr>, w1))))"

text \<open>\<open>callReve\<close> returns the body of a response with an ok status as it is: a
  \<open>ReveApiResponse\<close>, or \<open>null\<close> (\<open>None\<close>). On a body \<open>null\<close> with another status the
  test \<open>"message" in json\<close> throws a \<open>TypeError\<close>.\<close>

definition callReve ::
  "reve_answer \<Rightarrow> string \<Rightarrow> ReveRequest \<Rightarrow> world
     \<Rightarrow> (error + ReveApiResponse option) \<times> world" where
  "callReve answer endpoint body w =
     (case getReveKey w of
        Inl e \<Rightarrow> (Inl e, w)
      | Inr key \<Rightarrow>
          (let w1 = send (ReveCall endpoint body) w
           in case answer of
                ReveRejects e \<Rightarrow> (Inl e, w1)
              | ReveBodyInvalid e \<Rightarrow> (Inl e, w1)
              | ReveNotOk msg error_code \<Rightarrow>
                  (let m = (if truthy msg then (case msg of Some t \<Rightarrow> t | None \<Rightarrow> [])
                            else ''Reve API call failed'');
                       code = (if truthy error_code
                               then '' ('' @ (case error_code of Some t \<Rightarrow> t | None \<Rightarrow> []) @ '')''
                               else [])
                   in (Inl (Error (m @ code)), w1))
              | ReveNotOkNull \<Rightarrow>
                  (Inl (Error (''Cannot use '' @ [CHR 0x27] @ ''in'' @ [CHR 0x27]
                               @ '' operator to search for '' @ [CHR 0x27] @ ''message''
                               @ [CHR 0x27] @ '' in null'')), w1)
              | ReveOk data \<Rightarrow> (Inr (Some data), w1)
              | ReveOkNull \<Rightarrow> (Inr None, w1)))"

record ClientResponse =
  imageDataUrl :: string
  clientVersion :: string
  requestId :: string
  creditsUsed :: int
  creditsRemaining :: int
  contentViolation :: bool

text \<open>Reading \<open>data.image\<close> of \<open>null\<close> throws a \<open>TypeError\<close>.\<close>

definition toClientResponse :: "ReveApiResponse option \<Rightarrow> error + ClientResponse" where
  "toClientResponse body =
     (case body of
        None \<Rightarrow>
          Inl (Error (''Cannot read properties of null (reading '' @ [CHR 0x27] @ ''image''
                      @ [CHR 0x27] @ '')''))
      | Some data \<Rightarrow>
          Inr \<lparr>imageDataUrl = ''data:image/png;base64,'' @ image data,
               clientVersion = version data, requestId = request_id data,
               creditsUsed = credits_used data, creditsRemaining = credits_remaining data,
               contentViolation = content_violation data\<rparr>)"

section \<open>The generation routes\<close>

definition normalizeBase64 :: "string \<Rightarrow> string" where
  "normalizeBase64 base64OrDataUrl =
     (let v = trim base64OrDataUrl
      in if take 5 v = ''data:'' \<and> CHR '','' \<in> set v
         then drop 1 (dropWhile (\<lambda>c. c \<noteq> CHR '','') v)
         else v)"

definition sanitizeUpscaleFactor :: "platform \<Rightarrow> json option \<Rightarrow> int" where
  "sanitizeUpscaleFactor p v =
     (let numeric = toNumber p v
      in if numeric = Some 3 \<or> numeric = Some 4 then (case numeric of Some n \<Rightarrow> n | None \<Rightarrow> 2)
         else 2)"

definition getClientUserId :: "json \<Rightarrow> string option" where
  "getClientUserId payload =
     (if \<not> isObject payload then None
      else
        (case property payload ''clientUserId'' of
           Some (JStr maybeUserId) \<Rightarrow>
             (let uid = trim maybeUserId in if uid \<noteq> [] then Some uid else None)
         | _ \<Rightarrow> None))"

text \<open>The answers of the two generation routes: 400 with a message; 402 with the
  code \<open>upgrade_required\<close>, the checkout URL or the billing message, and the usage view;
  500 with a message; 200 with the image, the prompts and the usage view.\<close>

record Generated =
  result :: ClientResponse
  originalPrompt :: string
  optimizedPrompt :: string
  promptOptimized :: bool
  promptOptimizationSource :: string
  usage :: ViewObject

datatype response =
    BadRequest string
  | UpgradeRequired string "string option" "string option" ViewObject
  | ServerError string
  | Success Generated

fun status :: "response \<Rightarrow> nat" where
  "status (BadRequest m) = 400"
| "status (UpgradeRequired m checkoutUrl billingMessage u) = 402"
| "status (ServerError m) = 500"
| "status (Success g) = 200"

text \<open>\<open>POST /api/reve/create-remove-bg\<close>. An exception anywhere in the handler reaches
  its \<open>catch\<close>, which answers 500 with the message of the error. The object of the
  answer 200 is built, and \<open>toClientResponse\<close> is called, after \<open>markGenerationUsage\<close>
  and the second \<open>getUsageView\<close>.\<close>

definition post_reve_create_remove_bg ::
  "network \<Rightarrow> json \<Rightarrow> world \<Rightarrow> response \<times> world" where
  "post_reve_create_remove_bg net body w =
     (case getClientUserId body of
        None \<Rightarrow> (BadRequest ''clientUserId is required.'', w)
      | Some uid \<Rightarrow>
          (case getUsageView uid w of (u, w1) \<Rightarrow>
             if \<not> canGenerateOf u then
               (case createLemonCheckoutUrl (lemon net) uid None w1 of
                  (Inl err, w2) \<Rightarrow> (ServerError (message err), w2)
                | (Inr checkoutResult, w2) \<Rightarrow>
                    (UpgradeRequired
                       ''Free plan limit reached (1 image). Upgrade to continue generating.''
                       (case checkoutResult of
                          CheckoutOk url \<Rightarrow> Some url | CheckoutFailed m st \<Rightarrow> None)
                       (case checkoutResult of
                          CheckoutOk url \<Rightarrow> None | CheckoutFailed m st \<Rightarrow> Some m)
                       u, w2))
             else
               (let pr = (case property body ''prompt'' of Some (JStr t) \<Rightarrow> trim t | _ \<Rightarrow> [])
                in if pr = [] then (BadRequest ''Prompt is required.'', w1)
                   else
                     (case optimizePromptWithLongcat (longcat net) pr ''create''
                             (Some ''remove_background'') w1 of
                        (promptResult, w2) \<Rightarrow>
                          (case callReve (reve net) ''create''
                                  \<lparr>instruction = prompt promptResult, reference_image = None,
                                   postprocessing = [RemoveBackground]\<rparr> w2 of
                             (Inl err, w3) \<Rightarrow> (ServerError (message err), w3)
                           | (Inr data, w3) \<Rightarrow>
                               (case markGenerationUsage uid w3 of (marked, w4) \<Rightarrow>
                                  (case getUsageView uid w4 of (usageAfter, w5) \<Rightarrow>
                                     (case toClientResponse data of
                                        Inl err \<Rightarrow> (ServerError (message err), w5)
                                      | Inr client \<Rightarrow>
                                          (Success
                                             \<lparr>result = client, originalPrompt = pr,
                                              optimizedPrompt = prompt promptResult,
                                              promptOptimized = optimized promptResult,
                                              promptOptimizationSource = source promptResult,
                                              usage = usageAfter\<rparr>, w5)))))))))"

text \<open>\<open>POST /api/reve/enhance\<close>\<close>

definition post_reve_enhance ::
  "platform \<Rightarrow> network \<Rightarrow> json \<Rightarrow> world \<Rightarrow> response \<times> world" where
  "post_reve_enhance p net body w =
     (case getClientUserId body of
        None \<Rightarrow> (BadRequest ''clientUserId is required.'', w)
      | Some uid \<Rightarrow>
          (case getUsageView uid w of (u, w1) \<Rightarrow>
             if \<not> canGenerateOf u then
               (case createLemonCheckoutUrl (lemon net) uid None w1 of
                  (Inl err, w2) \<Rightarrow> (ServerError (message err), w2)
                | (Inr checkoutResult, w2) \<Rightarrow>
                    (UpgradeRequired
                       ''Free plan limit reached (1 image). Upgrade to continue generating.''
                       (case checkoutResult of
                          CheckoutOk url \<Rightarrow> Some url | CheckoutFailed m st \<Rightarrow> None)
                       (case checkoutResult of
                          CheckoutOk url \<Rightarrow> None | CheckoutFailed m st \<Rightarrow> Some m)
                       u, w2))
             else
               (let referenceImageRaw =
                      (case property body ''referenceImageBase64'' of Some (JStr t) \<Rightarrow> t | _ \<Rightarrow> [])
                in if trim referenceImageRaw = []
                   then (BadRequest ''referenceImageBase64 is required.'', w1)
                   else
                     (let operation =
                            (if property body ''operation'' = Some (JStr ''remove_background'')
                             then ''remove_background'' else ''upscale'');
                          upscaleFactor = sanitizeUpscaleFactor p (property body ''upscaleFactor'');
                          post = (if operation = ''remove_background'' then [RemoveBackground]
                                  else [Upscale upscaleFactor]);
                          pr = (case property body ''prompt'' of
                                  Some (JStr t) \<Rightarrow>
                                    if trim t \<noteq> [] then trim t
                                    else ''Enhance this image quality while preserving natural details.''
                                | _ \<Rightarrow> ''Enhance this image quality while preserving natural details.'')
                      in case optimizePromptWithLongcat (longcat net) pr ''enhance''
                                (Some operation) w1 of
                           (promptResult, w2) \<Rightarrow>
                             (case callReve (reve net) ''edit''
                                     \<lparr>instruction = prompt promptResult,
                                      reference_image = Some (normalizeBase64 referenceImageRaw),
                                      postprocessing = post\<rparr> w2 of
                                (Inl err, w3) \<Rightarrow> (ServerError (message err), w3)
                              | (Inr data, w3) \<Rightarrow>
                                  (case markGenerationUsage uid w3 of (marked, w4) \<Rightarrow>
                                     (case getUsageView uid w4 of (usageAfter, w5) \<Rightarrow>
                                        (case toClientResponse data of
                                           Inl err \<Rightarrow> (ServerError (message err), w5)
                                         | Inr client \<Rightarrow>
                                             (Success
                                                \<lparr>result = client, originalPrompt = pr,
                                                 optimizedPrompt = prompt promptResult,
                                                 promptOptimized = optimized promptResult,
                                                 promptOptimizationSource = source promptResult,
                                                 usage = usageAfter\<rparr>, w5)))))))))"

section \<open>Vocabulary of the statements\<close>

text \<open>The entry that the usage file holds for a user and the record that the table
  holds for a user.\<close>

definition localRecord :: "world \<Rightarrow> string \<Rightarrow> StoredUsage option" where
  "localRecord w uid = (case usageFile w of Document entries \<Rightarrow> entries uid | _ \<Rightarrow> None)"

definition remoteRecord :: "world \<Rightarrow> string \<Rightarrow> UsageRecord option" where
  "remoteRecord w uid = map_option mapDbUsageRowToUsageRecord (selectRow uid (remoteRows w))"

text \<open>The default record of a user, and the entry that the usage file holds for a
  \<open>UsageRecord\<close>.\<close>

definition freshRecord :: "string \<Rightarrow> string \<Rightarrow> UsageRecord" where
  "freshRecord uid now =
     \<lparr>userId = uid, generatedCount = 0, billingStatus = Free, lemonCustomerId = None,
      lemonSubscriptionId = None, updatedAt = now\<rparr>"

definition storedRecord :: "UsageRecord \<Rightarrow> StoredUsage" where
  "storedRecord r = dump (ofRecord r)"

text \<open>The value that an operation of a backend starts from: in the usage file the
  entry of the user, or else the inherited member of that name, or else the default
  record stamped with the next reading of the clock; in the table the row of the user,
  or else the default record.\<close>

definition localCurrent :: "world \<Rightarrow> string \<Rightarrow> held" where
  "localCurrent w uid =
     (case localRecord w uid of
        Some entry \<Rightarrow> Plain (load entry)
      | None \<Rightarrow>
          if uid \<in> set inheritedMembers then Member
          else Plain (ofRecord (freshRecord uid (clock w (clockReads w)))))"

definition remoteCurrent :: "world \<Rightarrow> string \<Rightarrow> UsageRecord" where
  "remoteCurrent w uid =
     (case remoteRecord w uid of
        Some existing \<Rightarrow> existing
      | None \<Rightarrow> freshRecord uid (clock w (clockReads w)))"

text \<open>One backend serves every call: the usage file, when no client exists or every
  remote operation fails and the \<open>users\<close> of the file is not an array; the table, when
  the client exists, no remote operation fails and the counts of the rows are 32-bit
  integers, as the type of their column has them.\<close>

definition tableTyped :: "DbUsageRow list \<Rightarrow> bool" where
  "tableTyped rows = list_all (\<lambda>row. int4 (generated_count row)) rows"

definition servedLocally :: "world \<Rightarrow> bool" where
  "servedLocally w = ((\<not> supabase w \<or> (\<forall>n. faults w n)) \<and> usageFile w \<noteq> UsersArray)"

definition servedRemotely :: "world \<Rightarrow> bool" where
  "servedRemotely w = (supabase w \<and> (\<forall>n. \<not> faults w n) \<and> tableTyped (remoteRows w))"

text \<open>The claim about the webhook's user id in the words of the specification: of the
  values read at the three locations, in their order, the first that is a string.\<close>

definition firstPresentString :: "string option list \<Rightarrow> string option" where
  "firstPresentString candidates =
     (case filter (\<lambda>c. c \<noteq> None) candidates of [] \<Rightarrow> None | c # cs \<Rightarrow> c)"

text \<open>The body that \<open>callReve\<close> returns for an answer of the image provider, when it
  returns one.\<close>

definition returnedBody :: "reve_answer \<Rightarrow> ReveApiResponse option option" where
  "returnedBody answer =
     (case answer of
        ReveOk data \<Rightarrow> Some (Some data)
      | ReveOkNull \<Rightarrow> Some None
      | _ \<Rightarrow> None)"

text \<open>The three stretches of code that the two generation routes share, named for the
  proofs: the answer to a request that is not admitted, the steps after the provider
  has answered, and the steps from the prompt optimisation on.\<close>

definition upgradeRequired ::
  "network \<Rightarrow> string \<Rightarrow> ViewObject \<Rightarrow> world \<Rightarrow> response \<times> world" where
  "upgradeRequired net uid u w =
     (case createLemonCheckoutUrl (lemon net) uid None w of
        (Inl err, w1) \<Rightarrow> (ServerError (message err), w1)
      | (Inr checkoutResult, w1) \<Rightarrow>
          (UpgradeRequired
             ''Free plan limit reached (1 image). Upgrade to continue generating.''
             (case checkoutResult of CheckoutOk url \<Rightarrow> Some url | CheckoutFailed m st \<Rightarrow> None)
             (case checkoutResult of CheckoutOk url \<Rightarrow> None | CheckoutFailed m st \<Rightarrow> Some m)
             u, w1))"

definition generated ::
  "string \<Rightarrow> string \<Rightarrow> PromptResult \<Rightarrow> ReveApiResponse option \<Rightarrow> world \<Rightarrow> response \<times> world" where
  "generated uid p promptResult data w =
     (case markGenerationUsage uid w of (marked, w1) \<Rightarrow>
        (case getUsageView uid w1 of (usageAfter, w2) \<Rightarrow>
           (case toClientResponse data of
              Inl err \<Rightarrow> (ServerError (message err), w2)
            | Inr client \<Rightarrow>
                (Success \<lparr>result = client, originalPrompt = p,
                          optimizedPrompt = prompt promptResult,
                          promptOptimized = optimized promptResult,
                          promptOptimizationSource = source promptResult,
                          usage = usageAfter\<rparr>, w2))))"

definition pipeline ::
  "network \<Rightarrow> string \<Rightarrow> string \<Rightarrow> string \<Rightarrow> string option \<Rightarrow> string
     \<Rightarrow> (string \<Rightarrow> ReveRequest) \<Rightarrow> world \<Rightarrow> response \<times> world" where
  "pipeline net uid pr flow oper endpoint request w1 =
     (case optimizePromptWithLongcat (longcat net) pr flow oper w1 of
        (promptResult, w2) \<Rightarrow>
          (case callReve (reve net) endpoint (request (prompt promptResult)) w2 of
             (Inl err, w3) \<Rightarrow> (ServerError (message err), w3)
           | (Inr data, w3) \<Rightarrow> generated uid pr promptResult data w3))"

section \<open>Example worlds, requests and answers\<close>

text \<open>Concrete inputs at which the theorems below are instantiated.\<close>

definition exampleClock :: "nat \<Rightarrow> string" where
  "exampleClock n = (if n = 0 then ''2026-01-01T00:00:00.000Z'' else ''2026-01-01T00:00:01.000Z'')"

definition emptyWorld :: world where
  "emptyWorld =
     \<lparr>env = Map.empty, supabase = False, remoteRows = [], faults = (\<lambda>n. False), remoteOps = 0,
      usageFile = NoFile, clock = exampleClock, clockReads = 0, sent = []\<rparr>"

text \<open>A user who has used the one free image, on a server with the checkout and the
  image provider configured and no remote store.\<close>

definition exhaustedRecord :: UsageRecord where
  "exhaustedRecord =
     \<lparr>userId = ''u1'', generatedCount = 1, billingStatus = Free, lemonCustomerId = None,
      lemonSubscriptionId = None, updatedAt = ''2025-12-31T00:00:00.000Z''\<rparr>"

definition exampleEnv :: "string \<rightharpoonup> string" where
  "exampleEnv =
     [''LEMON_SQUEEZY_API_KEY'' \<mapsto> ''lemon-key'', ''LEMON_SQUEEZY_STORE_ID'' \<mapsto> ''11'',
      ''LEMON_SQUEEZY_VARIANT_ID'' \<mapsto> ''22'', ''REVE_API_KEY'' \<mapsto> ''reve-key'']"

definition exhaustedWorld :: world where
  "exhaustedWorld =
     emptyWorld\<lparr>env := exampleEnv,
                usageFile := Document [''u1'' \<mapsto> storedRecord exhaustedRecord]\<rparr>"

text \<open>A server that meets the user \<open>u1\<close> for the first time.\<close>

definition firstVisitWorld :: world where
  "firstVisitWorld = emptyWorld\<lparr>env := exampleEnv\<rparr>"


definition remoteWorld :: world where
  "remoteWorld = emptyWorld\<lparr>supabase := True\<rparr>"

definition arrayWorld :: world where
  "arrayWorld = emptyWorld\<lparr>usageFile := UsersArray\<rparr>"

text \<open>Servers whose remote store holds a subscriber with five generations. The store
  of the first fails on its next operation only; the store of the second, which has the
  image provider configured, fails on the operation after the next only. The remote
  store of the third server is empty and fails on its next two operations only.\<close>

definition subscriberRow :: DbUsageRow where
  "subscriberRow =
     \<lparr>user_id = ''u1'', generated_count = 5, billing_status = Active,
      lemon_customer_id = Some ''c9'', lemon_subscription_id = Some ''s7'',
      updated_at = ''2025-12-31T00:00:00.000Z''\<rparr>"

definition flakyWorld :: world where
  "flakyWorld =
     emptyWorld\<lparr>supabase := True, remoteRows := [subscriberRow], faults := (\<lambda>n. n = 0)\<rparr>"

definition flakyAfterAdmissionWorld :: world where
  "flakyAfterAdmissionWorld =
     emptyWorld\<lparr>env := exampleEnv, supabase := True, remoteRows := [subscriberRow],
                faults := (\<lambda>n. n = 1)\<rparr>"

definition recoveringWorld :: world where
  "recoveringWorld = emptyWorld\<lparr>supabase := True, faults := (\<lambda>n. n < 2)\<rparr>"

text \<open>A server with a webhook secret.\<close>

definition signedWorld :: world where
  "signedWorld = emptyWorld\<lparr>env := [''LEMON_SQUEEZY_WEBHOOK_SECRET'' \<mapsto> ''s3cret'']\<rparr>"

text \<open>Networks: nothing can be reached; everything answers; the image provider answers
  200 with the body \<open>null\<close>.\<close>

definition unreachable :: network where
  "unreachable =
     \<lparr>lemon = CheckoutRejects (Error ''fetch failed''), longcat = LongcatRejects,
      reve = ReveRejects (Error ''fetch failed'')\<rparr>"

definition exampleImage :: ReveApiResponse where
  "exampleImage =
     \<lparr>image = ''iVBORw0KGgo='', version = ''reve-1'', content_violation = False,
      request_id = ''req-1'', credits_used = 1, credits_remaining = 9\<rparr>"

definition reachable :: network where
  "reachable =
     \<lparr>lemon = CheckoutBody (Some ''https://example.lemonsqueezy.com/checkout/1''),
      longcat = LongcatNotOk, reve = ReveOk exampleImage\<rparr>"

definition nullBody :: network where
  "nullBody =
     \<lparr>lemon = CheckoutBody (Some ''https://example.lemonsqueezy.com/checkout/1''),
      longcat = LongcatNotOk, reve = ReveOkNull\<rparr>"

definition idOnlyBody :: json where
  "idOnlyBody = JObj [(''clientUserId'', JStr ''u1'')]"

definition fullBody :: json where
  "fullBody =
     JObj [(''clientUserId'', JStr ''u1''), (''prompt'', JStr ''a red fox''),
           (''referenceImageBase64'', JStr ''iVBORw0KGgo='')]"

text \<open>Deliveries of the payment provider: the bytes and the value they parse to.\<close>

definition dq :: "string \<Rightarrow> string" where
  "dq s = CHR 0x22 # s @ [CHR 0x22]"

definition createdDelivery :: string where
  "createdDelivery =
     ''{'' @ dq ''meta'' @ '':{'' @ dq ''event_name'' @ '':'' @ dq ''subscription_created'' @ '',''
       @ dq ''custom_data'' @ '':{'' @ dq ''user_id'' @ '':'' @ dq ''u1'' @ ''}}}''"

definition createdPayload :: json where
  "createdPayload =
     JObj [(''meta'', JObj [(''event_name'', JStr ''subscription_created''),
                            (''custom_data'', JObj [(''user_id'', JStr ''u1'')])])]"

definition anonymousDelivery :: string where
  "anonymousDelivery =
     ''{'' @ dq ''meta'' @ '':{'' @ dq ''event_name'' @ '':'' @ dq ''order_created'' @ ''}}''"

definition anonymousPayload :: json where
  "anonymousPayload = JObj [(''meta'', JObj [(''event_name'', JStr ''order_created'')])]"

text \<open>A payload whose first location holds the empty string and whose third location
  holds a user id.\<close>

definition blankFirstPayload :: json where
  "blankFirstPayload =
     JObj [(''meta'', JObj [(''event_name'', JStr ''order_created''),
                            (''custom_data'', JObj [(''user_id'', JStr [])])]),
           (''data'', JObj [(''attributes'', JObj [(''user_id'', JStr ''u1'')])])]"

definition exampleParse :: "string \<Rightarrow> json option" where
  "exampleParse s =
     (if s = ''[]'' then Some (JArr [])
      else if s = ''null'' then Some JNull
      else if s = createdDelivery then Some createdPayload
      else if s = anonymousDelivery then Some anonymousPayload
      else None)"

definition examplePlatform :: platform where
  "examplePlatform =
     \<lparr>hmacSha256Hex = (\<lambda>secret body. ''5f2c''),
      jsonParse = exampleParse,
      toNumber = (\<lambda>v. case v of Some (JNum n) \<Rightarrow> Some n | _ \<Rightarrow> None)\<rparr>"

section \<open>Auxiliary facts\<close>

lemmas store_defs =
  getOrCreateLocalUsageRecord_def updateLocalUsageRecord_def ensureUsageStore_def
  saveUsageStore_def lookupUser_def assignUser_def newDate_def remoteOp_def
  getOrCreateSupabaseUsageRecord_def getUsageRecord_def updateUsageRecord_def Let_def

lemmas obs_defs =
  localRecord_def remoteRecord_def freshRecord_def localCurrent_def remoteCurrent_def
  mapDbUsageRowToUsageRecord_def

subsection \<open>Objects and numbers\<close>

lemma dumpNum_loadNum [simp]: "dumpNum (loadNum n) = n"
  by (cases n) simp_all

lemma dump_load [simp]: "dump (load entry) = entry"
  by (simp add: dump_def load_def)

lemma map_dump_load [simp]: "map_option dump (map_option load x) = x"
  by (cases x) simp_all

lemma loadNum_dumpNum [simp]: "n \<noteq> NaN \<Longrightarrow> loadNum (dumpNum n) = n"
  by (cases n) simp_all

lemma load_dump [simp]: "generatedCountOf object \<noteq> NaN \<Longrightarrow> load (dump object) = object"
  by (simp add: dump_def load_def)

lemma proto_inherited [simp]: "''__proto__'' \<in> set inheritedMembers"
  by (simp add: inheritedMembers_def)

lemma load_dump_ofRecord [simp]: "load (dump (ofRecord r)) = ofRecord r"
  by (simp add: dump_def load_def ofRecord_def)

lemma ofRecord_inject [simp]: "(ofRecord r = ofRecord r') = (r = r')"
  by (cases r; cases r') (auto simp: ofRecord_def)

lemma bitLength_le: "n < 2 ^ j \<Longrightarrow> bitLength n \<le> j"
proof (induction j arbitrary: n)
  case 0
  then show ?case by (simp add: bitLength.simps)
next
  case (Suc j)
  then have "n div 2 < 2 ^ j" by simp
  then have "bitLength (n div 2) \<le> j" by (rule Suc.IH)
  then show ?case by (subst bitLength.simps) simp
qed

lemma bitLength_eq: "2 ^ j \<le> n \<Longrightarrow> n < 2 ^ Suc j \<Longrightarrow> bitLength n = Suc j"
proof (induction j arbitrary: n)
  case 0
  then have "n = 1" by simp
  then show ?case by (simp add: bitLength.simps)
next
  case (Suc j)
  then have "2 ^ j \<le> n div 2" "n div 2 < 2 ^ Suc j" by simp_all
  then have "bitLength (n div 2) = Suc j" by (rule Suc.IH)
  moreover have "n \<noteq> 0"
  proof
    assume "n = 0"
    with Suc.prems(1) show False by simp
  qed
  ultimately show ?case by (subst bitLength.simps) simp
qed

lemma toDouble_exact:
  assumes "- 9007199254740992 \<le> k" "k \<le> 9007199254740992"
  shows "toDouble k = k"
proof (cases "abs k = 9007199254740992")
  case True
  have "bitLength (nat (abs k)) = Suc 53"
    unfolding True by (rule bitLength_eq) simp_all
  moreover have "k = 9007199254740992 \<or> k = - 9007199254740992" using True by arith
  ultimately show ?thesis by (auto simp: toDouble_def Let_def)
next
  case False
  then have "nat (abs k) < 2 ^ 53" using assms by simp
  then have "bitLength (nat (abs k)) \<le> 53" by (rule bitLength_le)
  then show ?thesis by (simp add: toDouble_def Let_def)
qed

text \<open>The first integer that is no double: adding one to \<open>2^53\<close> gives \<open>2^53\<close>.\<close>

lemma toDouble_rounds: "toDouble (9007199254740992 + 1) = 9007199254740992"
proof -
  have "bitLength (nat (abs (9007199254740993 :: int))) = Suc 53"
    by (rule bitLength_eq) simp_all
  then show ?thesis by (simp add: toDouble_def Let_def)
qed

lemma buildUsageViewOf_record:
  "buildUsageViewOf (Plain (ofRecord r)) = viewObject (buildUsageView r)"
  by (simp add: buildUsageViewOf_def buildUsageView_def viewObject_def ofRecord_def Let_def)

subsection \<open>The store\<close>

lemma UsageRecord_rebuild [simp]:
  "\<lparr>userId = uid, generatedCount = generatedCount r, billingStatus = billingStatus r,
     lemonCustomerId = lemonCustomerId r, lemonSubscriptionId = lemonSubscriptionId r,
     updatedAt = t\<rparr> = r\<lparr>userId := uid, updatedAt := t\<rparr>"
  by (cases r) simp

lemma selectRow_upsertRow [simp]:
  "user_id new = uid \<Longrightarrow> selectRow uid (upsertRow new rows) = Some new"
  by (induction rows) (auto simp: selectRow_def upsertRow_def insertRow_def)

lemma selectRow_insertRow [simp]:
  "user_id new = uid \<Longrightarrow> selectRow uid rows = None \<Longrightarrow>
     selectRow uid (insertRow new rows) = Some new"
  by (induction rows) (auto simp: selectRow_def insertRow_def)

lemma selectRow_key: "selectRow uid rows = Some row \<Longrightarrow> user_id row = uid"
  by (induction rows) (auto simp: selectRow_def split: if_splits)

lemma selectRow_insertRow_other:
  "selectRow v rows = Some c \<Longrightarrow> selectRow v (insertRow new rows) = Some c"
  by (induction rows) (auto simp: selectRow_def insertRow_def)

lemma tableTyped_insertRow [simp]:
  "tableTyped (insertRow new rows) = (tableTyped rows \<and> int4 (generated_count new))"
  by (auto simp: tableTyped_def insertRow_def)

lemma tableTyped_upsertRow:
  "tableTyped rows \<Longrightarrow> int4 (generated_count new) \<Longrightarrow> tableTyped (upsertRow new rows)"
  by (auto simp: tableTyped_def upsertRow_def insertRow_def list_all_iff)

lemma tableTyped_selectRow:
  "tableTyped rows \<Longrightarrow> selectRow uid rows = Some row \<Longrightarrow> int4 (generated_count row)"
  by (induction rows) (auto simp: tableTyped_def selectRow_def split: if_splits)

lemma upsertedRow_key: "upsertedRow uid next rows = Some row \<Longrightarrow> user_id row = uid"
  by (auto simp: upsertedRow_def Let_def split: jsnum.splits if_splits)

lemma upsertedRow_typed:
  "tableTyped rows \<Longrightarrow> upsertedRow uid next rows = Some row \<Longrightarrow> int4 (generated_count row)"
  by (auto simp: upsertedRow_def Let_def int4_def
      split: jsnum.splits if_splits option.splits dest: tableTyped_selectRow)

lemma getUsageRecord_frame:
  "getUsageRecord uid w = (r, w') \<Longrightarrow>
     env w' = env w \<and> sent w' = sent w \<and> faults w' = faults w \<and> supabase w' = supabase w
     \<and> clock w' = clock w"
  by (auto simp: store_defs
      split: usage_file.splits users_object.splits option.splits if_splits prod.splits)

lemma getUsageRecord_keeps_records:
  assumes "getUsageRecord uid w = (r, w1)"
  shows "(localRecord w v = Some c \<longrightarrow> localRecord w1 v = Some c)
       \<and> (remoteRecord w v = Some d \<longrightarrow> remoteRecord w1 v = Some d)"
  using assms
  by (auto simp: store_defs obs_defs selectRow_insertRow_other
      split: usage_file.splits users_object.splits option.splits if_splits prod.splits)

lemma read_keeps_records:
  assumes "getUsageView uid w = (u, w1)" "usageFile w' = usageFile w1"
    "remoteRows w' = remoteRows w1"
  shows "(\<forall>v c. localRecord w v = Some c \<longrightarrow> localRecord w' v = Some c)
       \<and> (\<forall>v c. remoteRecord w v = Some c \<longrightarrow> remoteRecord w' v = Some c)"
proof -
  obtain r where r: "getUsageRecord uid w = (r, w1)"
    using assms(1) by (auto simp: getUsageView_def split: prod.splits)
  have "localRecord w' v = localRecord w1 v" "remoteRecord w' v = remoteRecord w1 v" for v
    using assms(2,3) by (simp_all add: localRecord_def remoteRecord_def)
  with getUsageRecord_keeps_records [OF r] show ?thesis by simp
qed

lemma getUsageView_frame:
  "getUsageView uid w = (u, w') \<Longrightarrow>
     env w' = env w \<and> sent w' = sent w \<and> faults w' = faults w \<and> supabase w' = supabase w
     \<and> clock w' = clock w"
  by (auto simp: getUsageView_def split: prod.splits dest: getUsageRecord_frame)

lemma remoteCurrent_stored: "remoteRecord w uid = Some r \<Longrightarrow> remoteCurrent w uid = r"
  by (simp add: remoteCurrent_def)

lemma remoteCurrent_userId: "userId (remoteCurrent w uid) = uid"
  by (auto simp: obs_defs split: option.splits dest: selectRow_key)

lemma remoteCurrent_typed:
  "tableTyped (remoteRows w) \<Longrightarrow> int4 (generatedCount (remoteCurrent w uid))"
  by (auto simp: obs_defs int4_def split: option.splits dest: tableTyped_selectRow)

lemma sent_irrelevant [simp]:
  "servedLocally (w\<lparr>sent := s\<rparr>) = servedLocally w"
  "servedRemotely (w\<lparr>sent := s\<rparr>) = servedRemotely w"
  "localRecord (w\<lparr>sent := s\<rparr>) uid = localRecord w uid"
  "remoteRecord (w\<lparr>sent := s\<rparr>) uid = remoteRecord w uid"
  "localCurrent (w\<lparr>sent := s\<rparr>) uid = localCurrent w uid"
  "remoteCurrent (w\<lparr>sent := s\<rparr>) uid = remoteCurrent w uid"
  by (simp_all add: servedLocally_def servedRemotely_def obs_defs
      split: option.splits usage_file.splits)

text \<open>
  While the usage file serves every call, a read returns the value that the file gives
  and, unless that is an inherited member, the file holds it afterwards; an update
  returns the mutated object and the file holds it afterwards, unless the user id is
  \<open>__proto__\<close> and the file has no entry of that name.
\<close>

lemma get_local:
  assumes "servedLocally w" "getUsageRecord uid w = (r, w')"
  shows "r = localCurrent w uid \<and> servedLocally w' \<and> remoteRows w' = remoteRows w
       \<and> (\<forall>object. r = Plain object \<longrightarrow> localRecord w' uid = Some (dump object))"
  using assms
  by (auto simp: servedLocally_def store_defs obs_defs ofRecord_def
      split: usage_file.splits users_object.splits option.splits if_splits prod.splits)

lemma update_local:
  assumes "servedLocally w" "updateUsageRecord uid f w = (r, w')"
  shows "r = (f (fieldsOf (localCurrent w uid)))\<lparr>updatedAtOf := Some (clock w (clockReads w' - 1))\<rparr>
       \<and> clockReads w < clockReads w' \<and> servedLocally w' \<and> remoteRows w' = remoteRows w
       \<and> (uid \<noteq> ''__proto__'' \<or> localRecord w uid \<noteq> None \<longrightarrow>
            localRecord w' uid = Some (dump r))"
  using assms
  by (auto simp: servedLocally_def store_defs obs_defs ofRecord_def
      split: usage_file.splits users_object.splits option.splits if_splits prod.splits)

text \<open>
  While the table serves every call, a read returns the record that the table holds
  (inserting the default first), and an update whose row the table takes stores it.
\<close>

lemma get_remote:
  assumes "servedRemotely w" "getUsageRecord uid w = (r, w')"
  shows "r = Plain (ofRecord (remoteCurrent w uid))
       \<and> remoteRecord w' uid = Some (remoteCurrent w uid) \<and> servedRemotely w'"
  using assms
  by (auto simp: servedRemotely_def store_defs obs_defs int4_def
      split: usage_file.splits users_object.splits option.splits if_splits prod.splits)

lemma update_remote:
  assumes "servedRemotely w" "updateUsageRecord uid f w = (r, w')"
      and "generatedCountOf (f (ofRecord (remoteCurrent w uid))) = Num n" "int4 n"
      and "billingStatusOf (f (ofRecord (remoteCurrent w uid))) = Some s"
  shows "r = ofRecord
               \<lparr>userId = uid, generatedCount = n, billingStatus = s,
                lemonCustomerId = lemonCustomerIdOf (f (ofRecord (remoteCurrent w uid))),
                lemonSubscriptionId = lemonSubscriptionIdOf (f (ofRecord (remoteCurrent w uid))),
                updatedAt = clock w (clockReads w' - 1)\<rparr>
       \<and> (\<exists>stored. remoteRecord w' uid = Some stored \<and> r = ofRecord stored)
       \<and> clockReads w < clockReads w' \<and> servedRemotely w'"
proof -
  obtain c w1 where g: "getUsageRecord uid w = (c, w1)" by (cases "getUsageRecord uid w")
  from get_remote [OF assms(1) g]
  have c: "c = Plain (ofRecord (remoteCurrent w uid))" and s1: "servedRemotely w1" by simp_all
  have fr: "clock w1 = clock w" "clockReads w \<le> clockReads w1"
    using g assms(1)
    by (auto simp: servedRemotely_def store_defs
        split: usage_file.splits users_object.splits option.splits if_splits prod.splits)
  let ?next = "(f (ofRecord (remoteCurrent w uid)))\<lparr>updatedAtOf := Some (clock w1 (clockReads w1))\<rparr>"
  let ?row = "\<lparr>user_id = uid, generated_count = n, billing_status = s,
               lemon_customer_id = lemonCustomerIdOf (f (ofRecord (remoteCurrent w uid))),
               lemon_subscription_id = lemonSubscriptionIdOf (f (ofRecord (remoteCurrent w uid))),
               updated_at = clock w1 (clockReads w1)\<rparr>"
  have up: "upsertedRow uid ?next rows = Some ?row" for rows
    using assms(3-5) by (simp add: upsertedRow_def Let_def)
  have res: "r = ofRecord (mapDbUsageRowToUsageRecord ?row)"
    "w' = w1\<lparr>clockReads := clockReads w1 + 1, remoteOps := remoteOps w1 + 1,
             remoteRows := upsertRow ?row (remoteRows w1)\<rparr>"
    using assms(1,2) g c s1 up
    by (simp_all add: updateUsageRecord_def servedRemotely_def newDate_def remoteOp_def Let_def)
  have typed: "tableTyped (upsertRow ?row (remoteRows w1))"
    using s1 assms(4) by (simp add: servedRemotely_def tableTyped_upsertRow)
  from res fr s1 typed show ?thesis
    by (simp add: servedRemotely_def remoteRecord_def mapDbUsageRowToUsageRecord_def)
qed

text \<open>
  Whatever the fault schedule: an update stamps the object it returns with the last
  reading of the clock, and an updater that sets the billing status sets it in that object.
\<close>

lemma getUsageRecord_clock:
  "getUsageRecord uid w = (r, w') \<Longrightarrow> clockReads w \<le> clockReads w'"
  by (auto simp: store_defs
      split: usage_file.splits users_object.splits option.splits if_splits prod.splits)

lemma updateLocal_effect:
  assumes "updateLocalUsageRecord uid f w = (r, w')"
  shows "r = (f (fieldsOf (localCurrent w uid)))\<lparr>updatedAtOf := Some (clock w (clockReads w' - 1))\<rparr>
       \<and> clockReads w < clockReads w' \<and> clock w' = clock w \<and> env w' = env w
       \<and> remoteRows w' = remoteRows w
       \<and> (usageFile w \<noteq> UsersArray \<and> (uid \<noteq> ''__proto__'' \<or> localRecord w uid \<noteq> None) \<longrightarrow>
            localRecord w' uid = Some (dump r))"
  using assms
  by (auto simp: store_defs obs_defs ofRecord_def
      split: usage_file.splits users_object.splits option.splits if_splits prod.splits)

lemma upsertedRow_fields:
  assumes "upsertedRow uid next rows = Some row" "updatedAtOf next = Some t"
  shows "updated_at row = t \<and> user_id row = uid
       \<and> (\<forall>s. billingStatusOf next = Some s \<longrightarrow> billing_status row = s)"
  using assms
  by (auto simp: upsertedRow_def Let_def split: jsnum.splits if_splits)

lemma updateUsageRecord_unfold:
  assumes "supabase w" "getUsageRecord uid w = (c, w1)"
  shows "updateUsageRecord uid f w =
           (case (if faults w1 (remoteOps w1) then None
                  else upsertedRow uid
                         ((f (fieldsOf c))\<lparr>updatedAtOf := Some (clock w1 (clockReads w1))\<rparr>)
                         (remoteRows w1)) of
              None \<Rightarrow>
                updateLocalUsageRecord uid f
                  (w1\<lparr>clockReads := clockReads w1 + 1, remoteOps := remoteOps w1 + 1\<rparr>)
            | Some updated \<Rightarrow>
                (ofRecord (mapDbUsageRowToUsageRecord updated),
                 w1\<lparr>clockReads := clockReads w1 + 1, remoteOps := remoteOps w1 + 1,
                    remoteRows := upsertRow updated (remoteRows w1)\<rparr>))"
  using assms
  by (simp add: updateUsageRecord_def newDate_def remoteOp_def Let_def split: option.splits)

lemma update_any:
  assumes u: "updateUsageRecord uid f w = (r, w')"
  shows "updatedAtOf r = Some (clock w (clockReads w' - 1)) \<and> clockReads w < clockReads w'
       \<and> env w' = env w
       \<and> (\<forall>s. (\<forall>c. billingStatusOf (f c) = Some s) \<longrightarrow> billingStatusOf r = Some s)"
proof (cases "supabase w")
  case False
  with u have "updateLocalUsageRecord uid f w = (r, w')" by (simp add: updateUsageRecord_def)
  from updateLocal_effect [OF this] show ?thesis by auto
next
  case True
  obtain c w1 where g: "getUsageRecord uid w = (c, w1)" by (cases "getUsageRecord uid w")
  note fr = getUsageRecord_frame [OF g] getUsageRecord_clock [OF g]
  let ?next = "(f (fieldsOf c))\<lparr>updatedAtOf := Some (clock w1 (clockReads w1))\<rparr>"
  let ?w3 = "w1\<lparr>clockReads := clockReads w1 + 1, remoteOps := remoteOps w1 + 1\<rparr>"
  show ?thesis
  proof (cases "if faults w1 (remoteOps w1) then None else upsertedRow uid ?next (remoteRows w1)")
    case None
    with u have "updateLocalUsageRecord uid f ?w3 = (r, w')"
      by (simp add: updateUsageRecord_unfold [OF True g])
    from updateLocal_effect [OF this] fr show ?thesis by auto
  next
    case (Some updated)
    then have row: "upsertedRow uid ?next (remoteRows w1) = Some updated"
      by (simp split: if_splits)
    from Some u have res: "r = ofRecord (mapDbUsageRowToUsageRecord updated)"
      "w' = ?w3\<lparr>remoteRows := upsertRow updated (remoteRows w1)\<rparr>"
      by (simp_all add: updateUsageRecord_unfold [OF True g])
    from upsertedRow_fields [OF row] res fr show ?thesis
      by (simp add: ofRecord_def mapDbUsageRowToUsageRecord_def)
  qed
qed

lemma setBillingStatus_status:
  "billingStatusOf (fst (setBillingStatus uid s w)) = Some s
   \<and> env (snd (setBillingStatus uid s w)) = env w"
proof -
  obtain r w' where u: "updateUsageRecord uid (\<lambda>r. r\<lparr>billingStatusOf := Some s\<rparr>) w = (r, w')"
    by (cases "updateUsageRecord uid (\<lambda>r. r\<lparr>billingStatusOf := Some s\<rparr>) w")
  from update_any [OF u] u show ?thesis by (simp add: setBillingStatus_def)
qed

text \<open>
  Counting a generation. While one backend serves every call and the sum is exact
  there, a read after \<open>markGenerationUsage\<close> finds one generation more than the read
  before it.
\<close>

lemma stable_increment:
  assumes g: "getUsageRecord uid w = (r, w1)"
      and n: "generatedCountOf (fieldsOf r) = Num n"
      and st: "(servedLocally w \<and> - 9007199254740992 \<le> n + 1 \<and> n + 1 \<le> 9007199254740992)
             \<or> (servedRemotely w \<and> n < 2147483647)"
  shows "generatedCountOf
           (fieldsOf (fst (getUsageRecord uid (snd (markGenerationUsage uid (w1\<lparr>sent := s\<rparr>))))))
           = Num (n + 1)"
proof -
  let ?f = "\<lambda>r. r\<lparr>generatedCountOf := jsAdd1 (generatedCountOf r)\<rparr>"
  obtain m w4 where u: "updateUsageRecord uid ?f (w1\<lparr>sent := s\<rparr>) = (m, w4)"
    by (cases "updateUsageRecord uid ?f (w1\<lparr>sent := s\<rparr>)")
  obtain r5 w5 where g5: "getUsageRecord uid w4 = (r5, w5)"
    by (cases "getUsageRecord uid w4")
  from st have "generatedCountOf (fieldsOf r5) = Num (n + 1)"
  proof (elim disjE conjE)
    assume L: "servedLocally w" and b: "- 9007199254740992 \<le> n + 1" "n + 1 \<le> 9007199254740992"
    from n obtain object where o: "r = Plain object" by (cases r) (simp_all add: noFields_def)
    from get_local [OF L g] o
    have 1: "localRecord w1 uid = Some (dump object)" "servedLocally w1" "r = localCurrent w uid"
      by simp_all
    from o n have nn: "generatedCountOf object \<noteq> NaN" by simp
    from 1(1) nn have c: "localCurrent (w1\<lparr>sent := s\<rparr>) uid = Plain object"
      by (simp add: localCurrent_def)
    from 1 have L3: "servedLocally (w1\<lparr>sent := s\<rparr>)" by simp
    from update_local [OF L3 u] c 1(1)
    have 2: "generatedCountOf m = jsAdd1 (generatedCountOf object)"
      "localRecord w4 uid = Some (dump m)" "servedLocally w4"
      by simp_all
    from 2(1) o n b have cnt: "generatedCountOf m = Num (n + 1)"
      by (simp add: toDouble_exact)
    from get_local [OF 2(3) g5] 2(2) cnt have "r5 = Plain m"
      by (simp add: localCurrent_def)
    with cnt show ?thesis by simp
  next
    assume R: "servedRemotely w" and b: "n < 2147483647"
    from get_remote [OF R g]
    have 1: "r = Plain (ofRecord (remoteCurrent w uid))"
      "remoteRecord w1 uid = Some (remoteCurrent w uid)" "servedRemotely w1"
      by simp_all
    from 1(1) n have cn: "generatedCount (remoteCurrent w uid) = n" by (simp add: ofRecord_def)
    from R have "int4 (generatedCount (remoteCurrent w uid))"
      by (simp add: servedRemotely_def remoteCurrent_typed)
    with cn b have rng: "int4 (n + 1)" "- 9007199254740992 \<le> n + 1" "n + 1 \<le> 9007199254740992"
      by (simp_all add: int4_def)
    from 1(2) have c: "remoteCurrent w1 uid = remoteCurrent w uid"
      by (simp add: remoteCurrent_stored)
    from 1 have R3: "servedRemotely (w1\<lparr>sent := s\<rparr>)" by simp
    have cnt: "generatedCountOf (?f (ofRecord (remoteCurrent (w1\<lparr>sent := s\<rparr>) uid))) = Num (n + 1)"
      using cn rng by (simp add: c ofRecord_def toDouble_exact)
    have sta: "billingStatusOf (?f (ofRecord (remoteCurrent (w1\<lparr>sent := s\<rparr>) uid)))
        = Some (billingStatus (remoteCurrent w uid))"
      by (simp add: c ofRecord_def)
    from update_remote [OF R3 u cnt rng(1) sta]
    obtain stored where 2: "remoteRecord w4 uid = Some stored" "m = ofRecord stored"
      "generatedCountOf m = Num (n + 1)" "servedRemotely w4"
      by (auto simp: ofRecord_def)
    from get_remote [OF 2(4) g5] 2(1,2) have "r5 = Plain m"
      by (simp add: remoteCurrent_stored)
    with 2(3) show ?thesis by simp
  qed
  with u g5 show ?thesis by (simp add: markGenerationUsage_def)
qed

text \<open>
  Setting the billing status. The object that \<open>setBillingStatus\<close> returns has the status;
  while one backend serves every call (and the user id is not \<open>__proto__\<close>, for the
  usage file), a read after it finds the status, and the same backend serves on.
\<close>

lemma stable_status:
  assumes st: "(servedLocally w \<and> uid \<noteq> ''__proto__'') \<or> servedRemotely w"
      and u: "setBillingStatus uid s w = (m, w1)"
  shows "billingStatusOf (fieldsOf (fst (getUsageRecord uid w1))) = Some s
       \<and> ((servedLocally w1 \<and> uid \<noteq> ''__proto__'') \<or> servedRemotely w1)"
proof -
  let ?f = "\<lambda>r. r\<lparr>billingStatusOf := Some s\<rparr>"
  from u have u': "updateUsageRecord uid ?f w = (m, w1)" by (simp add: setBillingStatus_def)
  obtain r5 w5 where g5: "getUsageRecord uid w1 = (r5, w5)" by (cases "getUsageRecord uid w1")
  from st show ?thesis
  proof (elim disjE conjE)
    assume L: "servedLocally w" and p: "uid \<noteq> ''__proto__''"
    from update_local [OF L u'] p
    have 1: "billingStatusOf m = Some s" "localRecord w1 uid = Some (dump m)" "servedLocally w1"
      by simp_all
    from get_local [OF 1(3) g5] 1(2) have "r5 = Plain (load (dump m))"
      by (simp add: localCurrent_def)
    with 1 g5 p show ?thesis by (simp add: load_def dump_def)
  next
    assume R: "servedRemotely w"
    from R have t: "int4 (generatedCount (remoteCurrent w uid))"
      by (simp add: servedRemotely_def remoteCurrent_typed)
    have cnt: "generatedCountOf (?f (ofRecord (remoteCurrent w uid)))
        = Num (generatedCount (remoteCurrent w uid))"
      and sta: "billingStatusOf (?f (ofRecord (remoteCurrent w uid))) = Some s"
      by (simp_all add: ofRecord_def)
    from update_remote [OF R u' cnt t sta]
    obtain stored where 2: "remoteRecord w1 uid = Some stored" "m = ofRecord stored"
      "billingStatusOf m = Some s" "servedRemotely w1"
      by (auto simp: ofRecord_def)
    from get_remote [OF 2(4) g5] 2(1,2) have "r5 = Plain m"
      by (simp add: remoteCurrent_stored)
    with 2 g5 show ?thesis by simp
  qed
qed

subsection \<open>The generation routes\<close>

lemma upgradeRequired_effect:
  "upgradeRequired net uid u w = (resp, w') \<Longrightarrow>
     (sent w' = sent w \<or> sent w' = sent w @ [LemonCheckoutCall uid None])
   \<and> usageFile w' = usageFile w \<and> remoteRows w' = remoteRows w
   \<and> status resp \<noteq> 400
   \<and> (\<forall>res. fst (createLemonCheckoutUrl (lemon net) uid None w) = Inr res \<longrightarrow>
         resp = UpgradeRequired ''Free plan limit reached (1 image). Upgrade to continue generating.''
                  (case res of CheckoutOk url \<Rightarrow> Some url | CheckoutFailed m st \<Rightarrow> None)
                  (case res of CheckoutOk url \<Rightarrow> None | CheckoutFailed m st \<Rightarrow> Some m) u)"
  by (auto simp: upgradeRequired_def createLemonCheckoutUrl_def send_def Let_def
      split: option.splits checkout_answer.splits if_splits prod.splits sum.splits)

lemma denied_route:
  assumes "route = post_reve_create_remove_bg net \<or> route = post_reve_enhance p net"
      and "getClientUserId body = Some uid" "getUsageView uid w = (u, w1)" "\<not> canGenerateOf u"
  shows "route body w = upgradeRequired net uid u w1"
  using assms
  by (auto simp: post_reve_create_remove_bg_def post_reve_enhance_def upgradeRequired_def)

lemma optimize_cases:
  "optimizePromptWithLongcat a pr flow oper w = (pres, w2) \<Longrightarrow>
     w2 = w \<or> (\<exists>x y z. w2 = w\<lparr>sent := sent w @ [LongcatCall x y z]\<rparr>)"
  by (auto simp: optimizePromptWithLongcat_def send_def Let_def
      split: option.splits if_splits longcat_answer.splits)

lemma optimize_effect:
  assumes "optimizePromptWithLongcat a pr flow oper w = (pres, w2)"
  shows "\<exists>lc. w2 = w\<lparr>sent := sent w @ lc\<rparr> \<and> (lc = [] \<or> (\<exists>x y z. lc = [LongcatCall x y z]))"
proof -
  from optimize_cases [OF assms] show ?thesis
  proof
    assume "w2 = w"
    then have "w2 = w\<lparr>sent := sent w @ []\<rparr> \<and> ([] = [] \<or> (\<exists>x y z. [] = [LongcatCall x y z]))"
      by simp
    then show ?thesis by (rule exI)
  next
    assume "\<exists>x y z. w2 = w\<lparr>sent := sent w @ [LongcatCall x y z]\<rparr>"
    then obtain x y z where "w2 = w\<lparr>sent := sent w @ [LongcatCall x y z]\<rparr>" by (elim exE)
    then have "w2 = w\<lparr>sent := sent w @ [LongcatCall x y z]\<rparr>
        \<and> ([LongcatCall x y z] = [] \<or> (\<exists>x' y' z'. [LongcatCall x y z] = [LongcatCall x' y' z']))"
      by simp
    then show ?thesis by (rule exI)
  qed
qed

lemma getReveKey_env: "env w' = env w \<Longrightarrow> getReveKey w' = getReveKey w"
  by (simp add: getReveKey_def getEnv_def)

lemma callReve_returns:
  "getReveKey w = Inr key \<Longrightarrow> returnedBody a = Some b \<Longrightarrow>
     callReve a e req w = (Inr b, w\<lparr>sent := sent w @ [ReveCall e req]\<rparr>)"
  by (auto simp: callReve_def send_def returnedBody_def split: reve_answer.splits)

lemma callReve_fails:
  assumes "(\<exists>key. getReveKey w = Inr key) \<longrightarrow> returnedBody a = None"
      and "callReve a e req w = (res, w3)"
  shows "(\<exists>err. res = Inl err) \<and> usageFile w3 = usageFile w \<and> remoteRows w3 = remoteRows w"
  using assms
  by (auto simp: callReve_def send_def Let_def returnedBody_def
      split: sum.splits reve_answer.splits)

lemma admitted_route:
  assumes "(route = post_reve_create_remove_bg net \<and>
              (\<exists>t. property body ''prompt'' = Some (JStr t) \<and> trim t \<noteq> []))
         \<or> (route = post_reve_enhance p net \<and>
              (\<exists>t. property body ''referenceImageBase64'' = Some (JStr t) \<and> trim t \<noteq> []))"
      and "getClientUserId body = Some uid" "getUsageView uid w = (u, w1)" "canGenerateOf u"
  shows "\<exists>pr flow oper e req. route body w = pipeline net uid pr flow oper e req w1"
  using assms(1)
proof (elim disjE conjE exE)
  fix t
  assume "route = post_reve_create_remove_bg net" "property body ''prompt'' = Some (JStr t)"
    "trim t \<noteq> []"
  then have "route body w =
      pipeline net uid (trim t) ''create'' (Some ''remove_background'') ''create''
        (\<lambda>i. \<lparr>instruction = i, reference_image = None, postprocessing = [RemoveBackground]\<rparr>) w1"
    using assms(2-4)
    by (simp add: post_reve_create_remove_bg_def pipeline_def generated_def Let_def
        split: prod.splits sum.splits)
  then show ?thesis by (intro exI)
next
  fix t
  assume "route = post_reve_enhance p net"
    "property body ''referenceImageBase64'' = Some (JStr t)" "trim t \<noteq> []"
  then have "route body w = pipeline net uid
       (case property body ''prompt'' of
          Some (JStr t) \<Rightarrow>
            if trim t \<noteq> [] then trim t
            else ''Enhance this image quality while preserving natural details.''
        | _ \<Rightarrow> ''Enhance this image quality while preserving natural details.'')
       ''enhance''
       (Some (if property body ''operation'' = Some (JStr ''remove_background'')
              then ''remove_background'' else ''upscale''))
       ''edit''
       (\<lambda>i. \<lparr>instruction = i, reference_image = Some (normalizeBase64 t),
              postprocessing =
                (if (if property body ''operation'' = Some (JStr ''remove_background'')
                     then ''remove_background'' else ''upscale'') = ''remove_background''
                 then [RemoveBackground]
                 else [Upscale (sanitizeUpscaleFactor p (property body ''upscaleFactor''))])\<rparr>) w1"
    using assms(2-4)
    by (simp add: post_reve_enhance_def pipeline_def generated_def Let_def
        split: prod.splits sum.splits)
  then show ?thesis by (intro exI)
qed

lemma pipeline_failure:
  assumes "(\<exists>key. getReveKey w1 = Inr key) \<longrightarrow> returnedBody (reve net) = None"
      and "pipeline net uid pr flow oper e req w1 = (resp, w')"
  shows "status resp = 500 \<and> usageFile w' = usageFile w1 \<and> remoteRows w' = remoteRows w1"
proof -
  obtain pres w2 where o: "optimizePromptWithLongcat (longcat net) pr flow oper w1 = (pres, w2)"
    by (cases "optimizePromptWithLongcat (longcat net) pr flow oper w1")
  obtain res w3 where c: "callReve (reve net) e (req (prompt pres)) w2 = (res, w3)"
    by (cases "callReve (reve net) e (req (prompt pres)) w2")
  from optimize_effect [OF o] obtain lc where w2: "w2 = w1\<lparr>sent := sent w1 @ lc\<rparr>"
    by (elim exE conjE)
  have e2: "env w2 = env w1" and u2: "usageFile w2 = usageFile w1"
    and r2: "remoteRows w2 = remoteRows w1"
    by (simp_all add: w2)
  have k: "getReveKey w2 = getReveKey w1" using e2 by (rule getReveKey_env)
  have "(\<exists>key. getReveKey w2 = Inr key) \<longrightarrow> returnedBody (reve net) = None"
    using assms(1) k by simp
  from callReve_fails [OF this c]
  have f: "\<exists>err. res = Inl err" "usageFile w3 = usageFile w2" "remoteRows w3 = remoteRows w2"
    by simp_all
  then obtain err where "res = Inl err" by (elim exE)
  with assms(2) o c have "resp = ServerError (message err)" "w' = w3"
    by (simp_all add: pipeline_def)
  with f u2 r2 show ?thesis by simp
qed

lemma pipeline_returned:
  assumes "getReveKey w1 = Inr key" "returnedBody (reve net) = Some b"
      and "pipeline net uid pr flow oper e req w1 = (resp, w')"
  shows "\<exists>lc endpoint request.
            (lc = [] \<or> (\<exists>x y z. lc = [LongcatCall x y z]))
          \<and> (case markGenerationUsage uid
                    (w1\<lparr>sent := sent w1 @ lc @ [ReveCall endpoint request]\<rparr>) of
               (marked, w4) \<Rightarrow>
                 (case getUsageView uid w4 of
                    (usageAfter, w5) \<Rightarrow>
                      w' = w5
                    \<and> (case toClientResponse b of
                         Inl err \<Rightarrow> resp = ServerError (message err)
                       | Inr client \<Rightarrow>
                           (\<exists>g. resp = Success g \<and> result g = client \<and> usage g = usageAfter))))"
proof -
  obtain pres w2 where o: "optimizePromptWithLongcat (longcat net) pr flow oper w1 = (pres, w2)"
    by (cases "optimizePromptWithLongcat (longcat net) pr flow oper w1")
  from optimize_effect [OF o] obtain lc where w2: "w2 = w1\<lparr>sent := sent w1 @ lc\<rparr>"
    and lc: "lc = [] \<or> (\<exists>x y z. lc = [LongcatCall x y z])"
    by (elim exE conjE)
  have e2: "env w2 = env w1" by (simp add: w2)
  have k: "getReveKey w2 = Inr key" using getReveKey_env [OF e2] assms(1) by simp
  let ?request = "req (prompt pres)"
  let ?w3 = "w1\<lparr>sent := sent w1 @ lc @ [ReveCall e ?request]\<rparr>"
  have "w2\<lparr>sent := sent w2 @ [ReveCall e ?request]\<rparr> = ?w3"
    by (simp add: w2)
  then have c: "callReve (reve net) e ?request w2 = (Inr b, ?w3)"
    using callReve_returns [OF k assms(2), of e ?request] by simp
  have r: "generated uid pr pres b ?w3 = (resp, w')"
    using assms(3) o c by (simp add: pipeline_def)
  obtain m w4 where m: "markGenerationUsage uid ?w3 = (m, w4)"
    by (cases "markGenerationUsage uid ?w3")
  obtain ua w5 where v: "getUsageView uid w4 = (ua, w5)" by (cases "getUsageView uid w4")
  have out: "w' = w5
      \<and> (case toClientResponse b of
            Inl err \<Rightarrow> resp = ServerError (message err)
          | Inr client \<Rightarrow> (\<exists>g. resp = Success g \<and> result g = client \<and> usage g = ua))"
    using r m v by (auto simp: generated_def split: sum.splits)
  have concl: "(lc = [] \<or> (\<exists>x y z. lc = [LongcatCall x y z]))
          \<and> (case markGenerationUsage uid (w1\<lparr>sent := sent w1 @ lc @ [ReveCall e ?request]\<rparr>) of
               (marked, w4) \<Rightarrow>
                 (case getUsageView uid w4 of
                    (usageAfter, w5) \<Rightarrow>
                      w' = w5
                    \<and> (case toClientResponse b of
                         Inl err \<Rightarrow> resp = ServerError (message err)
                       | Inr client \<Rightarrow>
                           (\<exists>g. resp = Success g \<and> result g = client \<and> usage g = usageAfter))))"
    using lc m v out by simp
  show ?thesis
    by (rule exI [of _ lc], rule exI [of _ e], rule exI [of _ ?request]) (rule concl)
qed

subsection \<open>The webhook\<close>

lemma verify_env:
  "env w' = env w \<Longrightarrow> verifyLemonSignature p raw h w' = verifyLemonSignature p raw h w"
  by (simp add: verifyLemonSignature_def getLemonWebhookSecret_def getEnv_def)

lemma events_disjoint: "name \<in> set activationEvents \<Longrightarrow> name \<notin> set deactivationEvents"
  by (auto simp: activationEvents_def deactivationEvents_def)

lemma events_nonempty:
  "name \<in> set activationEvents \<union> set deactivationEvents \<Longrightarrow> name \<noteq> []"
  by (auto simp: activationEvents_def deactivationEvents_def)

lemma webhook_applies:
  assumes "name \<in> set activationEvents \<union> set deactivationEvents" "u \<noteq> []"
      and "verifyLemonSignature p rawBody (if truthy xsig then xsig else None) w = Inr True"
      and "jsonParse p rawBody = Some payload" "isObject payload"
      and "readNestedString payload [''meta'', ''event_name''] = Some name"
      and "extractLemonUserId payload = Some u"
  shows "post_billing_lemon_webhook p (Some rawBody) xsig w =
           (WebhookOk False,
            snd (setBillingStatus u (if name \<in> set activationEvents then Active else Free) w))"
  using assms events_disjoint [of name] events_nonempty [of name]
  by (auto simp: post_billing_lemon_webhook_def Let_def)

lemma arrayIndex_meta: "arrayIndex ''meta'' = None"
  by (simp add: arrayIndex_def isDigit_def)

subsection \<open>Values of the examples\<close>

lemma exhausted_view:
  "getUsageView ''u1'' exhaustedWorld = (viewObject (buildUsageView exhaustedRecord), exhaustedWorld)"
  by (simp add: getUsageView_def getUsageRecord_def getOrCreateLocalUsageRecord_def
      ensureUsageStore_def lookupUser_def exhaustedWorld_def emptyWorld_def storedRecord_def
      buildUsageViewOf_record)

lemma exhausted_denied: "\<not> canGenerateOf (viewObject (buildUsageView exhaustedRecord))"
  by (simp add: viewObject_def buildUsageView_def FREE_IMAGE_LIMIT_def exhaustedRecord_def)

lemma example_user: "getClientUserId fullBody = Some ''u1''" "getClientUserId idOnlyBody = Some ''u1''"
  by (simp_all add: getClientUserId_def fullBody_def idOnlyBody_def trim_def isSpace_def)

lemma exhausted_env:
  "getLemonApiKey exhaustedWorld = Some ''lemon-key''"
  "getLemonStoreId exhaustedWorld = Some ''11''"
  "getLemonVariantId exhaustedWorld = Some ''22''"
  "getReveKey exhaustedWorld = Inr ''reve-key''"
  by (simp_all add: getLemonApiKey_def getLemonStoreId_def getLemonVariantId_def getReveKey_def
      getEnv_def exhaustedWorld_def emptyWorld_def exampleEnv_def trim_def isSpace_def)

lemma u1_ordinary: "''u1'' \<notin> set inheritedMembers"
  by (simp add: inheritedMembers_def)

lemma firstVisit_facts:
  "getReveKey firstVisitWorld = Inr ''reve-key''"
  "servedLocally firstVisitWorld"
  "canGenerateOf (fst (getUsageView ''u1'' firstVisitWorld))"
  "viewGeneratedCountOf (fst (getUsageView ''u1'' firstVisitWorld)) = Num 0"
  by (simp_all add: getReveKey_def getEnv_def firstVisitWorld_def emptyWorld_def exampleEnv_def
      trim_def isSpace_def getUsageView_def getUsageRecord_def getOrCreateLocalUsageRecord_def
      ensureUsageStore_def lookupUser_def assignUser_def newDate_def saveUsageStore_def
      buildUsageViewOf_def FREE_IMAGE_LIMIT_def servedLocally_def u1_ordinary Let_def)

lemma fullBody_fields:
  "\<exists>t. property fullBody ''prompt'' = Some (JStr t) \<and> trim t \<noteq> []"
  "\<exists>t. property fullBody ''referenceImageBase64'' = Some (JStr t) \<and> trim t \<noteq> []"
  by (simp_all add: fullBody_def trim_def isSpace_def)

lemma created_facts:
  "''subscription_created'' \<in> set activationEvents \<union> set deactivationEvents"
  "verifyLemonSignature examplePlatform createdDelivery (if truthy None then None else None)
     emptyWorld = Inr True"
  "jsonParse examplePlatform createdDelivery = Some createdPayload"
  "isObject createdPayload"
  "readNestedString createdPayload [''meta'', ''event_name''] = Some ''subscription_created''"
  "extractLemonUserId createdPayload = Some ''u1''"
  by (simp_all add: activationEvents_def verifyLemonSignature_def getLemonWebhookSecret_def
      getEnv_def emptyWorld_def examplePlatform_def exampleParse_def createdDelivery_def dq_def
      createdPayload_def extractLemonUserId_def)

lemma anonymous_facts:
  "verifyLemonSignature examplePlatform anonymousDelivery (if truthy None then None else None)
     emptyWorld = Inr True"
  "jsonParse examplePlatform anonymousDelivery = Some anonymousPayload"
  "isObject anonymousPayload"
  "extractLemonUserId anonymousPayload = None"
  by (simp_all add: verifyLemonSignature_def getLemonWebhookSecret_def getEnv_def emptyWorld_def
      examplePlatform_def exampleParse_def createdDelivery_def anonymousDelivery_def dq_def
      anonymousPayload_def extractLemonUserId_def)

text \<open>The definitions that the values of the examples are computed from.\<close>

lemmas eval_defs =
  store_defs obs_defs upsertedRow_def selectRow_def upsertRow_def insertRow_def int4_def
  ofRecord_def dump_def load_def noFields_def buildUsageViewOf_def getUsageView_def
  FREE_IMAGE_LIMIT_def markGenerationUsage_def setBillingStatus_def emptyWorld_def
  exampleClock_def inheritedMembers_def

section \<open>Properties\<close>

text \<open>
  C1. \<open>buildUsageView\<close> is a function of the record alone. For every record the view has
  \<open>remainingFree = max(0, FREE_IMAGE_LIMIT - generatedCount)\<close>, \<open>hasActiveSubscription\<close>
  is true exactly when the billing status is active, and \<open>canGenerate\<close> is true exactly
  when there is an active subscription or a free generation remains. The last equation
  says both particular cases at once: \<open>canGenerate\<close> holds for every record below the
  limit or with an active status, and fails for every free record at or above the limit.
\<close>

theorem buildUsageView_decision:
  "remainingFree (buildUsageView r) = max 0 (FREE_IMAGE_LIMIT - generatedCount r) \<and>
   hasActiveSubscription (buildUsageView r) = (billingStatus r = Active) \<and>
   canGenerate (buildUsageView r) =
     (hasActiveSubscription (buildUsageView r) \<or> remainingFree (buildUsageView r) > 0) \<and>
   canGenerate (buildUsageView r) =
     (generatedCount r < FREE_IMAGE_LIMIT \<or> billingStatus r = Active)"
  by (auto simp: buildUsageView_def Let_def)

text \<open>
  C2 (as amended). Admission before spend. Take a request to either generation route
  with a client user id, whose usage view \<open>u\<close> (read into the world \<open>w1\<close>) has
  \<open>canGenerate = false\<close>. Then the handler sends nothing but at most the one checkout
  request: the image provider is never called. It leaves the usage file and the table
  as the read of the usage left them, and every record that a backend held before the
  request is held unchanged after it: no \<open>generatedCount\<close> is incremented. And whenever
  \<open>createLemonCheckoutUrl\<close> returns a result, the answer is the 402 with the code
  \<open>upgrade_required\<close>, the view \<open>u\<close>, the checkout URL when the result has one and the
  billing message when it has none.
\<close>

theorem denied_request_spends_nothing:
  assumes "route = post_reve_create_remove_bg net \<or> route = post_reve_enhance p net"
      and "getClientUserId body = Some uid"
      and "getUsageView uid w = (u, w1)"
      and "\<not> canGenerateOf u"
  shows "case route body w of (resp, w') \<Rightarrow>
           (sent w' = sent w \<or> sent w' = sent w @ [LemonCheckoutCall uid None])
         \<and> usageFile w' = usageFile w1 \<and> remoteRows w' = remoteRows w1
         \<and> (\<forall>v c. localRecord w v = Some c \<longrightarrow> localRecord w' v = Some c)
         \<and> (\<forall>v c. remoteRecord w v = Some c \<longrightarrow> remoteRecord w' v = Some c)
         \<and> (\<forall>res. fst (createLemonCheckoutUrl (lemon net) uid None w1) = Inr res \<longrightarrow>
               resp = UpgradeRequired
                        ''Free plan limit reached (1 image). Upgrade to continue generating.''
                        (case res of CheckoutOk url \<Rightarrow> Some url | CheckoutFailed m st \<Rightarrow> None)
                        (case res of CheckoutOk url \<Rightarrow> None | CheckoutFailed m st \<Rightarrow> Some m) u)"
proof -
  obtain resp w' where rw: "route body w = (resp, w')" by (cases "route body w")
  have up: "upgradeRequired net uid u w1 = (resp, w')"
    using denied_route [OF assms] rw by simp
  note e = upgradeRequired_effect [OF up]
  from e have st: "usageFile w' = usageFile w1" "remoteRows w' = remoteRows w1"
    by simp_all
  note k = read_keeps_records [OF assms(3) st]
  have "sent w1 = sent w" using getUsageView_frame [OF assms(3)] by simp
  with e k rw show ?thesis by simp
qed

text \<open>
  At the user who has used the free image, with a checkout that answers with a URL.
\<close>

theorem denied_request_witness:
  "getClientUserId fullBody = Some ''u1''
   \<and> getUsageView ''u1'' exhaustedWorld
       = (viewObject (buildUsageView exhaustedRecord), exhaustedWorld)
   \<and> \<not> canGenerateOf (viewObject (buildUsageView exhaustedRecord))
   \<and> fst (post_reve_create_remove_bg reachable fullBody exhaustedWorld) =
       UpgradeRequired ''Free plan limit reached (1 image). Upgrade to continue generating.''
         (Some ''https://example.lemonsqueezy.com/checkout/1'') None
         (viewObject (buildUsageView exhaustedRecord))
   \<and> usageFile (snd (post_reve_create_remove_bg reachable fullBody exhaustedWorld)) =
       usageFile exhaustedWorld"
proof -
  have url: "fst (createLemonCheckoutUrl (lemon reachable) ''u1'' None exhaustedWorld) =
      Inr (CheckoutOk ''https://example.lemonsqueezy.com/checkout/1'')"
    by (simp add: createLemonCheckoutUrl_def exhausted_env reachable_def send_def)
  note t = denied_request_spends_nothing
    [where route = "post_reve_create_remove_bg reachable" and net = reachable
       and body = fullBody and w = exhaustedWorld,
     OF disjI1 [OF refl] example_user(1) exhausted_view exhausted_denied]
  from t url show ?thesis
    by (simp add: split_beta example_user exhausted_view exhausted_denied)
qed

text \<open>
  The claim as first stated promises the 402 for every such request. When the checkout is
  configured and its request throws, the exception reaches the \<open>catch\<close> of the route and
  the answer is a 500.
\<close>

theorem denied_request_checkout_throws:
  "getClientUserId fullBody = Some ''u1''
   \<and> \<not> canGenerateOf (fst (getUsageView ''u1'' exhaustedWorld))
   \<and> fst (post_reve_create_remove_bg unreachable fullBody exhaustedWorld) =
       ServerError ''fetch failed''
   \<and> status (fst (post_reve_create_remove_bg unreachable fullBody exhaustedWorld)) \<noteq> 402"
  by (simp add: post_reve_create_remove_bg_def example_user exhausted_view exhausted_denied
      createLemonCheckoutUrl_def exhausted_env unreachable_def send_def)

text \<open>
  C3 (as amended). Usage is counted on success only. Take an admitted request to either
  generation route: a client user id, a usage view \<open>u\<close> with \<open>canGenerate = true\<close>, and the
  field that the route validates (the prompt, or the reference image).

  If the call of the image provider fails, because the key is missing, \<open>fetch\<close> rejects,
  the body is not JSON or the status is not ok, then the answer is a 500, the usage file
  and the table are as the read of the usage left them, and every record that a backend
  held before the request is held unchanged after it.

  If the provider answers with an ok status and an image, the answer is the 200 with
  that image; the handler has sent at most one prompt request and then exactly one image
  request, has called \<open>markGenerationUsage\<close> exactly once and has read the usage view
  again for the answer. If moreover one backend serves every call of the request, and
  the count \<open>n\<close> of the admitting view is a number whose successor that backend can hold
  (a double in the usage file, a 32-bit integer in the table), then the view in the
  answer counts \<open>n + 1\<close>.

  If the provider answers with an ok status and the body \<open>null\<close>, the answer is a 500;
  nothing is said here about the count in that case.
\<close>

theorem usage_counted_only_on_success:
  assumes "(route = post_reve_create_remove_bg net \<and>
              (\<exists>t. property body ''prompt'' = Some (JStr t) \<and> trim t \<noteq> []))
         \<or> (route = post_reve_enhance p net \<and>
              (\<exists>t. property body ''referenceImageBase64'' = Some (JStr t) \<and> trim t \<noteq> []))"
      and "getClientUserId body = Some uid"
      and "getUsageView uid w = (u, w1)"
      and "canGenerateOf u"
  shows "case route body w of (resp, w') \<Rightarrow>
           (case (getReveKey w, reve net) of
              (Inr key, ReveOk data) \<Rightarrow>
                (\<exists>g lc endpoint request.
                   resp = Success g \<and> toClientResponse (Some data) = Inr (result g)
                 \<and> (lc = [] \<or> (\<exists>x y z. lc = [LongcatCall x y z]))
                 \<and> (case markGenerationUsage uid
                           (w1\<lparr>sent := sent w @ lc @ [ReveCall endpoint request]\<rparr>) of
                      (marked, w4) \<Rightarrow>
                        (case getUsageView uid w4 of
                           (usageAfter, w5) \<Rightarrow> usage g = usageAfter \<and> w' = w5))
                 \<and> (\<forall>n. viewGeneratedCountOf u = Num n
                        \<and> ((servedLocally w \<and> - 9007199254740992 \<le> n + 1
                               \<and> n + 1 \<le> 9007199254740992)
                           \<or> (servedRemotely w \<and> n < 2147483647))
                      \<longrightarrow> viewGeneratedCountOf (usage g) = Num (n + 1)))
            | (Inr key, ReveOkNull) \<Rightarrow> status resp = 500
            | _ \<Rightarrow>
                status resp = 500 \<and> usageFile w' = usageFile w1 \<and> remoteRows w' = remoteRows w1
              \<and> (\<forall>v c. localRecord w v = Some c \<longrightarrow> localRecord w' v = Some c)
              \<and> (\<forall>v c. remoteRecord w v = Some c \<longrightarrow> remoteRecord w' v = Some c))"
proof -
  obtain resp w' where rw: "route body w = (resp, w')" by (cases "route body w")
  from admitted_route [OF assms]
  have "\<exists>pr flow oper e req. route body w = pipeline net uid pr flow oper e req w1" .
  then show ?thesis
  proof (elim exE)
    fix pr flow oper e req
    assume "route body w = pipeline net uid pr flow oper e req w1"
    with rw have pl: "pipeline net uid pr flow oper e req w1 = (resp, w')" by simp
    from getUsageView_frame [OF assms(3)]
    have fr: "env w1 = env w" "sent w1 = sent w" by simp_all
    have key: "getReveKey w1 = getReveKey w" using fr(1) by (rule getReveKey_env)
    have failed: "status resp = 500 \<and> usageFile w' = usageFile w1
          \<and> remoteRows w' = remoteRows w1
          \<and> (\<forall>v c. localRecord w v = Some c \<longrightarrow> localRecord w' v = Some c)
          \<and> (\<forall>v c. remoteRecord w v = Some c \<longrightarrow> remoteRecord w' v = Some c)"
      if no: "(\<exists>key. getReveKey w = Inr key) \<longrightarrow> returnedBody (reve net) = None"
    proof -
      from no key have "(\<exists>key. getReveKey w1 = Inr key) \<longrightarrow> returnedBody (reve net) = None"
        by simp
      then have stores: "status resp = 500 \<and> usageFile w' = usageFile w1
          \<and> remoteRows w' = remoteRows w1"
        using pl by (rule pipeline_failure)
      then have st: "usageFile w' = usageFile w1" "remoteRows w' = remoteRows w1"
        by simp_all
      show ?thesis using stores read_keeps_records [OF assms(3) st] by simp
    qed
    show ?thesis
    proof (cases "getReveKey w")
      case (Inl missing)
      then show ?thesis using failed by (simp add: rw)
    next
      case (Inr k)
      with key have k: "getReveKey w1 = Inr k" by simp
      show ?thesis
      proof (cases "reve net")
        case (ReveRejects err)
        with Inr show ?thesis using failed by (simp add: rw returnedBody_def)
      next
        case (ReveBodyInvalid err)
        with Inr show ?thesis using failed by (simp add: rw returnedBody_def)
      next
        case (ReveNotOk m code)
        with Inr show ?thesis using failed by (simp add: rw returnedBody_def)
      next
        case ReveNotOkNull
        with Inr show ?thesis using failed by (simp add: rw returnedBody_def)
      next
        case ReveOkNull
        then have b: "returnedBody (reve net) = Some None" by (simp add: returnedBody_def)
        from pipeline_returned [OF k b pl] have "status resp = 500"
          by (auto simp: toClientResponse_def split_beta)
        with Inr ReveOkNull show ?thesis by (simp add: rw)
      next
        case (ReveOk data)
        then have b: "returnedBody (reve net) = Some (Some data)"
          by (simp add: returnedBody_def)
        obtain client where cl: "toClientResponse (Some data) = Inr client"
          by (simp add: toClientResponse_def)
        from pipeline_returned [OF k b pl]
        have "\<exists>lc endpoint request.
            (lc = [] \<or> (\<exists>x y z. lc = [LongcatCall x y z]))
          \<and> (case markGenerationUsage uid
                    (w1\<lparr>sent := sent w1 @ lc @ [ReveCall endpoint request]\<rparr>) of
               (marked, w4) \<Rightarrow>
                 (case getUsageView uid w4 of
                    (usageAfter, w5) \<Rightarrow>
                      w' = w5
                    \<and> (\<exists>g. resp = Success g \<and> result g = client \<and> usage g = usageAfter)))"
          by (simp add: cl)
        then show ?thesis
        proof (elim exE conjE)
          fix lc endpoint request
          assume lc: "lc = [] \<or> (\<exists>x y z. lc = [LongcatCall x y z])"
            and comp0: "case markGenerationUsage uid
                    (w1\<lparr>sent := sent w1 @ lc @ [ReveCall endpoint request]\<rparr>) of
               (marked, w4) \<Rightarrow>
                 (case getUsageView uid w4 of
                    (usageAfter, w5) \<Rightarrow>
                      w' = w5
                    \<and> (\<exists>g. resp = Success g \<and> result g = client \<and> usage g = usageAfter))"
          let ?w3 = "w1\<lparr>sent := sent w1 @ lc @ [ReveCall endpoint request]\<rparr>"
          from comp0 obtain g where g: "resp = Success g" "result g = client"
            "usage g = fst (getUsageView uid (snd (markGenerationUsage uid ?w3)))"
            "w' = snd (getUsageView uid (snd (markGenerationUsage uid ?w3)))"
            by (auto simp: split_beta)
          obtain r where r: "getUsageRecord uid w = (r, w1)" "u = buildUsageViewOf r"
            using assms(3) by (auto simp: getUsageView_def split: prod.splits)
          have stable: "viewGeneratedCountOf (usage g) = Num (n + 1)"
            if n: "viewGeneratedCountOf u = Num n"
              and st: "(servedLocally w \<and> - 9007199254740992 \<le> n + 1
                          \<and> n + 1 \<le> 9007199254740992)
                       \<or> (servedRemotely w \<and> n < 2147483647)"
            for n
          proof -
            from n r(2) have cn: "generatedCountOf (fieldsOf r) = Num n"
              by (simp add: buildUsageViewOf_def Let_def)
            from stable_increment [OF r(1) cn st, of "sent w1 @ lc @ [ReveCall endpoint request]"]
            show ?thesis
              by (simp add: g(3) getUsageView_def split_beta buildUsageViewOf_def Let_def)
          qed
          have concl: "resp = Success g \<and> toClientResponse (Some data) = Inr (result g)
                 \<and> (lc = [] \<or> (\<exists>x y z. lc = [LongcatCall x y z]))
                 \<and> (case markGenerationUsage uid
                           (w1\<lparr>sent := sent w @ lc @ [ReveCall endpoint request]\<rparr>) of
                      (marked, w4) \<Rightarrow>
                        (case getUsageView uid w4 of
                           (usageAfter, w5) \<Rightarrow> usage g = usageAfter \<and> w' = w5))
                 \<and> (\<forall>n. viewGeneratedCountOf u = Num n
                        \<and> ((servedLocally w \<and> - 9007199254740992 \<le> n + 1
                               \<and> n + 1 \<le> 9007199254740992)
                           \<or> (servedRemotely w \<and> n < 2147483647))
                      \<longrightarrow> viewGeneratedCountOf (usage g) = Num (n + 1))"
            using g lc stable cl fr(2) by (simp add: split_beta)
          have succeeded: "\<exists>g lc endpoint request.
                   resp = Success g \<and> toClientResponse (Some data) = Inr (result g)
                 \<and> (lc = [] \<or> (\<exists>x y z. lc = [LongcatCall x y z]))
                 \<and> (case markGenerationUsage uid
                           (w1\<lparr>sent := sent w @ lc @ [ReveCall endpoint request]\<rparr>) of
                      (marked, w4) \<Rightarrow>
                        (case getUsageView uid w4 of
                           (usageAfter, w5) \<Rightarrow> usage g = usageAfter \<and> w' = w5))
                 \<and> (\<forall>n. viewGeneratedCountOf u = Num n
                        \<and> ((servedLocally w \<and> - 9007199254740992 \<le> n + 1
                               \<and> n + 1 \<le> 9007199254740992)
                           \<or> (servedRemotely w \<and> n < 2147483647))
                      \<longrightarrow> viewGeneratedCountOf (usage g) = Num (n + 1))"
            by (rule exI [of _ g], rule exI [of _ lc], rule exI [of _ endpoint],
                rule exI [of _ request]) (rule concl)
          show ?thesis
            unfolding rw prod.case Inr ReveOk sum.case reve_answer.case by (rule succeeded)
        qed
      qed
    qed
  qed
qed

text \<open>
  At a first visit: with a provider that answers, the count in the answer is 1; with a
  provider that cannot be reached, the answer is a 500 and the usage file is untouched.
\<close>

theorem usage_counted_witness:
  "getClientUserId fullBody = Some ''u1''
   \<and> canGenerateOf (fst (getUsageView ''u1'' firstVisitWorld))
   \<and> viewGeneratedCountOf (fst (getUsageView ''u1'' firstVisitWorld)) = Num 0
   \<and> servedLocally firstVisitWorld
   \<and> (\<exists>t. property fullBody ''prompt'' = Some (JStr t) \<and> trim t \<noteq> [])
   \<and> (\<exists>g. fst (post_reve_create_remove_bg reachable fullBody firstVisitWorld) = Success g
          \<and> viewGeneratedCountOf (usage g) = Num 1)
   \<and> status (fst (post_reve_create_remove_bg unreachable fullBody firstVisitWorld)) = 500
   \<and> usageFile (snd (post_reve_create_remove_bg unreachable fullBody firstVisitWorld)) =
       usageFile (snd (getUsageView ''u1'' firstVisitWorld))"
proof -
  have route: "(post_reve_create_remove_bg net = post_reve_create_remove_bg net \<and>
              (\<exists>t. property fullBody ''prompt'' = Some (JStr t) \<and> trim t \<noteq> []))
         \<or> (post_reve_create_remove_bg net = post_reve_enhance examplePlatform net \<and>
              (\<exists>t. property fullBody ''referenceImageBase64'' = Some (JStr t) \<and> trim t \<noteq> []))"
    for net
    using fullBody_fields(1) by simp
  have view: "getUsageView ''u1'' firstVisitWorld =
      (fst (getUsageView ''u1'' firstVisitWorld), snd (getUsageView ''u1'' firstVisitWorld))"
    by simp
  note ok = usage_counted_only_on_success
    [where net = reachable and p = examplePlatform, OF route example_user(1) view firstVisit_facts(3)]
  note ko = usage_counted_only_on_success
    [where net = unreachable and p = examplePlatform, OF route example_user(1) view firstVisit_facts(3)]
  have good: "\<exists>g. fst (post_reve_create_remove_bg reachable fullBody firstVisitWorld) = Success g
          \<and> viewGeneratedCountOf (usage g) = Num 1"
    using ok firstVisit_facts
    by (auto simp: split_beta reachable_def)
  have bad: "status (fst (post_reve_create_remove_bg unreachable fullBody firstVisitWorld)) = 500
     \<and> usageFile (snd (post_reve_create_remove_bg unreachable fullBody firstVisitWorld)) =
       usageFile (snd (getUsageView ''u1'' firstVisitWorld))"
    using ko firstVisit_facts
    by (simp add: split_beta unreachable_def)
  from good bad show ?thesis
    using example_user(1) firstVisit_facts fullBody_fields(1) by simp
qed

text \<open>
  The claim as first stated promises exactly one increment for every admitted request
  that the provider serves. Here the table holds a subscriber with five generations, the
  read that admits the request succeeds, and the next remote operation, the read inside
  \<open>markGenerationUsage\<close>, fails: the update starts from the default record of the usage
  file and its upsert overwrites the row. The answer is a 200 whose view counts one
  generation on the free plan, and the table holds that record.
\<close>

theorem usage_count_reset_by_read_fault:
  "getClientUserId fullBody = Some ''u1''
   \<and> remoteRecord flakyAfterAdmissionWorld ''u1'' = Some (mapDbUsageRowToUsageRecord subscriberRow)
   \<and> canGenerateOf (fst (getUsageView ''u1'' flakyAfterAdmissionWorld))
   \<and> viewGeneratedCountOf (fst (getUsageView ''u1'' flakyAfterAdmissionWorld)) = Num 5
   \<and> (case fst (post_reve_create_remove_bg reachable fullBody flakyAfterAdmissionWorld) of
         Success g \<Rightarrow>
           viewGeneratedCountOf (usage g) = Num 1 \<and> viewBillingStatusOf (usage g) = Some Free
       | _ \<Rightarrow> False)
   \<and> map_option generatedCount
        (remoteRecord (snd (post_reve_create_remove_bg reachable fullBody flakyAfterAdmissionWorld))
           ''u1'') = Some 1"
proof -
  have body: "property fullBody ''prompt'' = Some (JStr ''a red fox'')"
    by (simp add: fullBody_def)
  have tr: "trim ''a red fox'' = ''a red fox''" by (simp add: trim_def isSpace_def)
  have v: "getUsageView ''u1'' flakyAfterAdmissionWorld
      = (buildUsageViewOf (Plain (ofRecord (mapDbUsageRowToUsageRecord subscriberRow))),
         flakyAfterAdmissionWorld\<lparr>remoteOps := Suc 0\<rparr>)"
    by (simp add: getUsageView_def store_defs selectRow_def flakyAfterAdmissionWorld_def
        subscriberRow_def emptyWorld_def)
  have o: "optimizePromptWithLongcat (longcat reachable) ''a red fox'' ''create''
       (Some ''remove_background'') (flakyAfterAdmissionWorld\<lparr>remoteOps := Suc 0\<rparr>)
     = (\<lparr>prompt = ''a red fox'', optimized = False, source = ''original''\<rparr>,
        flakyAfterAdmissionWorld\<lparr>remoteOps := Suc 0\<rparr>)"
    by (simp add: optimizePromptWithLongcat_def getLongcatKey_def getEnv_def clampPrompt_def tr
        flakyAfterAdmissionWorld_def emptyWorld_def exampleEnv_def Let_def)
  have c: "callReve (reve reachable) ''create'' req (flakyAfterAdmissionWorld\<lparr>remoteOps := Suc 0\<rparr>)
     = (Inr (Some exampleImage),
        flakyAfterAdmissionWorld\<lparr>remoteOps := Suc 0, sent := [ReveCall ''create'' req]\<rparr>)" for req
    by (simp add: callReve_def getReveKey_def getEnv_def send_def reachable_def trim_def isSpace_def
        flakyAfterAdmissionWorld_def emptyWorld_def exampleEnv_def Let_def)
  have can: "canGenerateOf (buildUsageViewOf (Plain (ofRecord (mapDbUsageRowToUsageRecord subscriberRow))))"
    "viewGeneratedCountOf (buildUsageViewOf (Plain (ofRecord (mapDbUsageRowToUsageRecord subscriberRow)))) = Num 5"
    by (simp_all add: buildUsageViewOf_def ofRecord_def mapDbUsageRowToUsageRecord_def
        subscriberRow_def Let_def)
  have held: "remoteRecord flakyAfterAdmissionWorld ''u1'' = Some (mapDbUsageRowToUsageRecord subscriberRow)"
    by (simp add: remoteRecord_def selectRow_def flakyAfterAdmissionWorld_def subscriberRow_def
        emptyWorld_def)
  have route: "post_reve_create_remove_bg reachable fullBody flakyAfterAdmissionWorld
      = generated ''u1'' ''a red fox''
          \<lparr>prompt = ''a red fox'', optimized = False, source = ''original''\<rparr> (Some exampleImage)
          (flakyAfterAdmissionWorld\<lparr>remoteOps := Suc 0,
             sent := [ReveCall ''create'' \<lparr>instruction = ''a red fox'', reference_image = None,
                        postprocessing = [RemoveBackground]\<rparr>]\<rparr>)"
    by (simp add: post_reve_create_remove_bg_def example_user v can body tr o c generated_def Let_def)
  show ?thesis
    unfolding route
    by (simp add: example_user v can held)
       (simp add: generated_def toClientResponse_def eval_defs flakyAfterAdmissionWorld_def
          subscriberRow_def toDouble_exact)
qed

text \<open>
  The claim as first stated also promises the refreshed view after every successful
  response of the provider. A response with an ok status and the body \<open>null\<close> is counted,
  and then \<open>toClientResponse\<close> throws: the answer is a 500 and the count is 1.
\<close>

lemma null_body_counts_then_fails:
  "status (fst (post_reve_create_remove_bg nullBody fullBody firstVisitWorld)) = 500
   \<and> map_option generatedCountOf
        (localRecord (snd (post_reve_create_remove_bg nullBody fullBody firstVisitWorld)) ''u1'')
       = Some (JsonNum 1)"
proof -
  have body: "property fullBody ''prompt'' = Some (JStr ''a red fox'')"
    by (simp add: fullBody_def)
  have tr: "trim ''a red fox'' = ''a red fox''" by (simp add: trim_def isSpace_def)
  have k: "getReveKey w = Inr ''reve-key''" "getLongcatKey w = None" if "env w = exampleEnv" for w
    using that
    by (simp_all add: getReveKey_def getLongcatKey_def getEnv_def exampleEnv_def trim_def isSpace_def)
  obtain u w1 where v: "getUsageView ''u1'' firstVisitWorld = (u, w1)"
    by (cases "getUsageView ''u1'' firstVisitWorld")
  with firstVisit_facts(3) have can: "canGenerateOf u" by simp
  from getUsageView_frame [OF v] have e1: "env w1 = exampleEnv"
    by (simp add: firstVisitWorld_def emptyWorld_def)
  have route: "post_reve_create_remove_bg nullBody fullBody firstVisitWorld
      = generated ''u1'' ''a red fox''
          \<lparr>prompt = ''a red fox'', optimized = False, source = ''original''\<rparr> None
          (w1\<lparr>sent := sent w1 @ [ReveCall ''create'' \<lparr>instruction = ''a red fox'',
                        reference_image = None, postprocessing = [RemoveBackground]\<rparr>]\<rparr>)"
    by (simp add: post_reve_create_remove_bg_def example_user v can body tr generated_def Let_def
        optimizePromptWithLongcat_def callReve_def k [OF e1] clampPrompt_def send_def nullBody_def)
  have w1: "w1 = snd (getUsageView ''u1'' firstVisitWorld)" using v by simp
  show ?thesis
    unfolding route
    by (simp add: generated_def toClientResponse_def split_beta w1)
       (simp add: eval_defs firstVisitWorld_def toDouble_exact)
qed

text \<open>
  C4 (as amended). The webhook is idempotent while one backend serves. Take a verified
  delivery whose payload names a recognised event and a user. Delivered twice in a row,
  it is answered \<open>{ok: true}\<close> both times; each delivery is one \<open>setBillingStatus\<close> with
  the same fixed status \<open>s\<close> (active for an activation event, free for a deactivation
  event), and the object that each call returns has the billing status \<open>s\<close>. If one
  backend serves every call, the usage file (for a user id other than \<open>__proto__\<close>) or
  the table, then a read of the user's record after the first delivery finds the status
  \<open>s\<close>, and a read after the second delivery finds \<open>s\<close> as well.
\<close>

theorem webhook_idempotent:
  assumes "name \<in> set activationEvents \<union> set deactivationEvents"
      and "u \<noteq> []"
      and "verifyLemonSignature p rawBody (if truthy xsig then xsig else None) w = Inr True"
      and "jsonParse p rawBody = Some payload"
      and "isObject payload"
      and "readNestedString payload [''meta'', ''event_name''] = Some name"
      and "extractLemonUserId payload = Some u"
  shows "let s = (if name \<in> set activationEvents then Active else Free) in
         case post_billing_lemon_webhook p (Some rawBody) xsig w of (r1, w1) \<Rightarrow>
         case post_billing_lemon_webhook p (Some rawBody) xsig w1 of (r2, w2) \<Rightarrow>
           r1 = WebhookOk False \<and> r2 = WebhookOk False
         \<and> w1 = snd (setBillingStatus u s w) \<and> w2 = snd (setBillingStatus u s w1)
         \<and> billingStatusOf (fst (setBillingStatus u s w)) = Some s
         \<and> billingStatusOf (fst (setBillingStatus u s w1)) = Some s
         \<and> ((servedLocally w \<and> u \<noteq> ''__proto__'') \<or> servedRemotely w \<longrightarrow>
              billingStatusOf (fieldsOf (fst (getUsageRecord u w1))) = Some s
            \<and> billingStatusOf (fieldsOf (fst (getUsageRecord u w2))) = Some s)"
proof -
  define s where "s = (if name \<in> set activationEvents then Active else Free)"
  obtain a w1 where first: "setBillingStatus u s w = (a, w1)"
    by (cases "setBillingStatus u s w")
  obtain b w2 where second: "setBillingStatus u s w1 = (b, w2)"
    by (cases "setBillingStatus u s w1")
  note e1 = setBillingStatus_status [of u s w]
  note e2 = setBillingStatus_status [of u s w1]
  from e1 first have "env w1 = env w" by simp
  from verify_env [OF this]
  have v1: "verifyLemonSignature p rawBody (if truthy xsig then xsig else None) w1 = Inr True"
    using assms(3) by simp
  have d1: "post_billing_lemon_webhook p (Some rawBody) xsig w = (WebhookOk False, w1)"
    using webhook_applies [OF assms] first by (simp add: s_def)
  have d2: "post_billing_lemon_webhook p (Some rawBody) xsig w1 = (WebhookOk False, w2)"
    using webhook_applies [OF assms(1,2) v1 assms(4-7)] second by (simp add: s_def)
  have stable: "billingStatusOf (fieldsOf (fst (getUsageRecord u w1))) = Some s
            \<and> billingStatusOf (fieldsOf (fst (getUsageRecord u w2))) = Some s"
    if st: "(servedLocally w \<and> u \<noteq> ''__proto__'') \<or> servedRemotely w"
  proof -
    note s1 = stable_status [OF st first]
    then have st1: "(servedLocally w1 \<and> u \<noteq> ''__proto__'') \<or> servedRemotely w1" by simp
    from s1 stable_status [OF st1 second] show ?thesis by simp
  qed
  from e1 e2 first second d1 d2 stable show ?thesis
    unfolding s_def [symmetric] Let_def by simp
qed

text \<open>
  At a \<open>subscription_created\<close> delivery for the user \<open>u1\<close> on a server without a webhook
  secret and without a remote store.
\<close>

theorem webhook_idempotent_witness:
  "''subscription_created'' \<in> set activationEvents \<union> set deactivationEvents
   \<and> jsonParse examplePlatform createdDelivery = Some createdPayload
   \<and> extractLemonUserId createdPayload = Some ''u1''
   \<and> servedLocally emptyWorld
   \<and> fst (post_billing_lemon_webhook examplePlatform (Some createdDelivery) None emptyWorld)
       = WebhookOk False
   \<and> fst (post_billing_lemon_webhook examplePlatform (Some createdDelivery) None
            (snd (post_billing_lemon_webhook examplePlatform (Some createdDelivery) None
                    emptyWorld)))
       = WebhookOk False
   \<and> billingStatusOf (fieldsOf (fst (getUsageRecord ''u1''
        (snd (post_billing_lemon_webhook examplePlatform (Some createdDelivery) None emptyWorld)))))
       = Some Active
   \<and> billingStatusOf (fieldsOf (fst (getUsageRecord ''u1''
        (snd (post_billing_lemon_webhook examplePlatform (Some createdDelivery) None
           (snd (post_billing_lemon_webhook examplePlatform (Some createdDelivery) None
                   emptyWorld)))))))
       = Some Active"
proof -
  have ne: "''u1'' \<noteq> []" by simp
  note t = webhook_idempotent [OF created_facts(1) ne created_facts(2-6)]
  have act: "''subscription_created'' \<in> set activationEvents"
    by (simp add: activationEvents_def)
  have loc: "servedLocally emptyWorld" "''u1'' \<noteq> ''__proto__''"
    by (simp_all add: servedLocally_def emptyWorld_def)
  from t act loc show ?thesis
    using created_facts(1,3,6) by (simp only: Let_def split_beta if_True) (elim conjE, simp)
qed

text \<open>
  The claim as first stated compares the status after two deliveries with the status
  after one on every server. Here the remote store fails on its first two operations and
  works from then on. The first delivery falls back to the usage file for its read and
  for its write; the second is served by the table. A read after the first delivery
  finds the free status, a read after the second finds the active one.
\<close>

theorem webhook_second_delivery_changes_status:
  "(case post_billing_lemon_webhook examplePlatform (Some createdDelivery) None recoveringWorld of
      (r1, w1) \<Rightarrow>
        (case post_billing_lemon_webhook examplePlatform (Some createdDelivery) None w1 of
           (r2, w2) \<Rightarrow>
             r1 = WebhookOk False \<and> r2 = WebhookOk False
           \<and> billingStatusOf (fieldsOf (fst (getUsageRecord ''u1'' w1))) = Some Free
           \<and> billingStatusOf (fieldsOf (fst (getUsageRecord ''u1'' w2))) = Some Active))"
proof -
  have v: "verifyLemonSignature examplePlatform createdDelivery (if truthy None then None else None) w
      = Inr True" if "env w = Map.empty" for w
    using that by (simp add: verifyLemonSignature_def getLemonWebhookSecret_def getEnv_def)
  have ne: "''u1'' \<noteq> []" by simp
  have e0: "env recoveringWorld = Map.empty" by (simp add: recoveringWorld_def emptyWorld_def)
  have d1: "post_billing_lemon_webhook examplePlatform (Some createdDelivery) None recoveringWorld
      = (WebhookOk False, snd (setBillingStatus ''u1'' Active recoveringWorld))"
    using webhook_applies [OF created_facts(1) ne v [OF e0] created_facts(3-6)]
    by (simp add: activationEvents_def)
  have e1: "env (snd (setBillingStatus ''u1'' Active recoveringWorld)) = Map.empty"
    using setBillingStatus_status [of "''u1''" Active recoveringWorld] e0 by simp
  have d2: "post_billing_lemon_webhook examplePlatform (Some createdDelivery) None
        (snd (setBillingStatus ''u1'' Active recoveringWorld))
      = (WebhookOk False,
         snd (setBillingStatus ''u1'' Active (snd (setBillingStatus ''u1'' Active recoveringWorld))))"
    using webhook_applies [OF created_facts(1) ne v [OF e1] created_facts(3-6)]
    by (simp add: activationEvents_def)
  have w1: "snd (setBillingStatus ''u1'' Active recoveringWorld)
      = recoveringWorld\<lparr>remoteOps := 2, clockReads := 3,
          usageFile := Document
            [''u1'' \<mapsto> \<lparr>userIdOf = Some ''u1'', generatedCountOf = JsonNum 0,
                         billingStatusOf = Some Active, lemonCustomerIdOf = None,
                         lemonSubscriptionIdOf = None,
                         updatedAtOf = Some ''2026-01-01T00:00:01.000Z''\<rparr>]\<rparr>"
    by (simp add: eval_defs recoveringWorld_def fun_eq_iff)
  show ?thesis
    unfolding d1 prod.case d2
    by (simp add: w1) (simp add: eval_defs recoveringWorld_def)
qed

text \<open>
  C5. Signature verification. \<open>verifyLemonSignature\<close> never throws. Without a
  configured secret it returns true. With a secret it returns true exactly when the
  header is present (and not empty), its bytes are as many as those of the hex digest of
  the HMAC of the raw body, and the bytes are equal; it returns false otherwise. The time
  that the comparison takes is not part of this model.
\<close>

theorem verifyLemonSignature_decides:
  "verifyLemonSignature p rawBody header w =
     Inr (case getLemonWebhookSecret w of
            None \<Rightarrow> True
          | Some secret \<Rightarrow>
              (case header of
                 None \<Rightarrow> False
               | Some h \<Rightarrow>
                   h \<noteq> [] \<and>
                   length (bufferFrom h) = length (bufferFrom (hmacSha256Hex p secret rawBody)) \<and>
                   bufferFrom h = bufferFrom (hmacSha256Hex p secret rawBody)))"
  by (cases header)
     (auto simp: verifyLemonSignature_def timingSafeEqual_def Let_def split: option.splits)

text \<open>
  Without a secret; and with a secret, at the right header, at a header of the right
  length and other content, at a shorter header and at no header.
\<close>

theorem verifyLemonSignature_witness:
  "getLemonWebhookSecret emptyWorld = None
   \<and> verifyLemonSignature examplePlatform createdDelivery None emptyWorld = Inr True
   \<and> getLemonWebhookSecret signedWorld = Some ''s3cret''
   \<and> verifyLemonSignature examplePlatform createdDelivery (Some ''5f2c'') signedWorld = Inr True
   \<and> verifyLemonSignature examplePlatform createdDelivery (Some ''5f2d'') signedWorld = Inr False
   \<and> verifyLemonSignature examplePlatform createdDelivery (Some ''5f2'') signedWorld = Inr False
   \<and> verifyLemonSignature examplePlatform createdDelivery None signedWorld = Inr False"
proof -
  have s0: "getLemonWebhookSecret emptyWorld = None"
    by (simp add: getLemonWebhookSecret_def getEnv_def emptyWorld_def)
  have s1: "getLemonWebhookSecret signedWorld = Some ''s3cret''"
    by (simp add: getLemonWebhookSecret_def getEnv_def signedWorld_def emptyWorld_def
        trim_def isSpace_def)
  have h: "hmacSha256Hex examplePlatform secret body = ''5f2c''" for secret body
    by (simp add: examplePlatform_def)
  show ?thesis
    using verifyLemonSignature_decides [of examplePlatform createdDelivery None emptyWorld]
      verifyLemonSignature_decides [of examplePlatform createdDelivery "Some ''5f2c''" signedWorld]
      verifyLemonSignature_decides [of examplePlatform createdDelivery "Some ''5f2d''" signedWorld]
      verifyLemonSignature_decides [of examplePlatform createdDelivery "Some ''5f2''" signedWorld]
      verifyLemonSignature_decides [of examplePlatform createdDelivery None signedWorld]
    by (simp add: s0 s1 h bufferFrom_def utf8_def)
qed

text \<open>
  C6 (as amended). The user id of a webhook payload. Let \<open>a\<close>, \<open>b\<close>, \<open>c\<close> be what
  \<open>readNestedString\<close> finds at \<open>meta.custom_data.user_id\<close>,
  \<open>data.attributes.custom_data.user_id\<close> and \<open>data.attributes.user_id\<close>. The result is the
  first of \<open>a\<close>, \<open>b\<close> that is a string and not empty, and \<open>c\<close> when there is none. When
  neither \<open>a\<close> nor \<open>b\<close> is the empty string, this is the first of the three that is a
  string, as the claim says; when none of the three is a string the result is \<open>null\<close>.
  A verified delivery whose payload yields \<open>null\<close> or the empty string is answered
  \<open>{ok: true, ignored: true}\<close> and changes nothing.
\<close>

theorem extractLemonUserId_first_nonempty:
  "(let a = readNestedString payload [''meta'', ''custom_data'', ''user_id''];
        b = readNestedString payload [''data'', ''attributes'', ''custom_data'', ''user_id''];
        c = readNestedString payload [''data'', ''attributes'', ''user_id'']
    in extractLemonUserId payload = (case filter truthy [a, b] of x # xs \<Rightarrow> x | [] \<Rightarrow> c)
     \<and> (a \<noteq> Some [] \<and> b \<noteq> Some [] \<longrightarrow>
          extractLemonUserId payload = firstPresentString [a, b, c])
     \<and> (a = None \<and> b = None \<and> c = None \<longrightarrow> extractLemonUserId payload = None))
   \<and> (verifyLemonSignature p rawBody (if truthy xsig then xsig else None) w = Inr True
        \<and> jsonParse p rawBody = Some payload \<and> isObject payload
        \<and> \<not> truthy (extractLemonUserId payload)
      \<longrightarrow> post_billing_lemon_webhook p (Some rawBody) xsig w = (WebhookOk True, w))"
proof -
  have 1: "(let a = readNestedString payload [''meta'', ''custom_data'', ''user_id''];
        b = readNestedString payload [''data'', ''attributes'', ''custom_data'', ''user_id''];
        c = readNestedString payload [''data'', ''attributes'', ''user_id'']
    in extractLemonUserId payload = (case filter truthy [a, b] of x # xs \<Rightarrow> x | [] \<Rightarrow> c)
     \<and> (a \<noteq> Some [] \<and> b \<noteq> Some [] \<longrightarrow>
          extractLemonUserId payload = firstPresentString [a, b, c])
     \<and> (a = None \<and> b = None \<and> c = None \<longrightarrow> extractLemonUserId payload = None))"
    unfolding extractLemonUserId_def firstPresentString_def Let_def
    by (cases "readNestedString payload [''meta'', ''custom_data'', ''user_id'']";
        cases "readNestedString payload [''data'', ''attributes'', ''custom_data'', ''user_id'']";
        cases "readNestedString payload [''data'', ''attributes'', ''user_id'']")
       simp_all
  have 2: "post_billing_lemon_webhook p (Some rawBody) xsig w = (WebhookOk True, w)"
    if "verifyLemonSignature p rawBody (if truthy xsig then xsig else None) w = Inr True"
      "jsonParse p rawBody = Some payload" "isObject payload"
      "\<not> truthy (extractLemonUserId payload)"
    using that
    by (cases "extractLemonUserId payload")
       (simp_all add: post_billing_lemon_webhook_def Let_def split: option.splits)
  from 1 2 show ?thesis by simp
qed

text \<open>
  At a delivery without a user id, which is ignored, and at one with a user id.
\<close>

theorem extractLemonUserId_witness:
  "jsonParse examplePlatform anonymousDelivery = Some anonymousPayload
   \<and> isObject anonymousPayload
   \<and> extractLemonUserId anonymousPayload = None
   \<and> post_billing_lemon_webhook examplePlatform (Some anonymousDelivery) None emptyWorld
       = (WebhookOk True, emptyWorld)
   \<and> extractLemonUserId createdPayload = Some ''u1''"
  using extractLemonUserId_first_nonempty
          [of anonymousPayload examplePlatform anonymousDelivery None emptyWorld]
        anonymous_facts created_facts(6)
  by (simp add: Let_def)

text \<open>
  The claim as first stated lets the first string win. In this payload the first
  location holds the empty string, which is the first string present, and the result is
  the user id of the third location.
\<close>

theorem extractLemonUserId_skips_empty_string:
  "readNestedString blankFirstPayload [''meta'', ''custom_data'', ''user_id''] = Some []
   \<and> firstPresentString
        [readNestedString blankFirstPayload [''meta'', ''custom_data'', ''user_id''],
         readNestedString blankFirstPayload [''data'', ''attributes'', ''custom_data'', ''user_id''],
         readNestedString blankFirstPayload [''data'', ''attributes'', ''user_id'']] = Some []
   \<and> extractLemonUserId blankFirstPayload = Some ''u1''"
  by (simp add: blankFirstPayload_def extractLemonUserId_def firstPresentString_def)




text \<open>
  When the \<open>users\<close> of the usage file is an array, the default record and the updated
  record are returned and not written: the read after an update starts from zero again.
\<close>

lemma users_array_loses_writes:
  "fst (getUsageRecord ''u1'' arrayWorld) = Plain (ofRecord (freshRecord ''u1'' ''2026-01-01T00:00:00.000Z''))
   \<and> usageFile (snd (getUsageRecord ''u1'' arrayWorld)) = UsersArray
   \<and> generatedCountOf (fst (markGenerationUsage ''u1'' arrayWorld)) = Num 1
   \<and> usageFile (snd (markGenerationUsage ''u1'' arrayWorld)) = UsersArray
   \<and> generatedCountOf (fieldsOf (fst (getUsageRecord ''u1'' (snd (markGenerationUsage ''u1'' arrayWorld)))))
       = Num 0"
  by (simp add: eval_defs arrayWorld_def toDouble_exact)

text \<open>
  C8 (as amended). The quota check comes before the validation of the body. Take a
  request to either generation route with a client user id, whose usage view has
  \<open>canGenerate = false\<close>. Whatever else the body holds, a prompt and a reference image or
  neither, the answer is never a 400, and it is the 402 whenever
  \<open>createLemonCheckoutUrl\<close> returns a result.
\<close>

theorem quota_check_precedes_validation:
  assumes "route = post_reve_create_remove_bg net \<or> route = post_reve_enhance p net"
      and "getClientUserId body = Some uid"
      and "getUsageView uid w = (u, w1)"
      and "\<not> canGenerateOf u"
  shows "status (fst (route body w)) \<noteq> 400
       \<and> (\<forall>res. fst (createLemonCheckoutUrl (lemon net) uid None w1) = Inr res \<longrightarrow>
             status (fst (route body w)) = 402)"
proof -
  obtain resp w' where rw: "upgradeRequired net uid u w1 = (resp, w')"
    by (cases "upgradeRequired net uid u w1")
  with denied_route [OF assms] have "route body w = (resp, w')" by simp
  with upgradeRequired_effect [OF rw] show ?thesis by auto
qed

text \<open>
  At a body with nothing but the user id, on both routes.
\<close>

theorem quota_check_witness:
  "getClientUserId idOnlyBody = Some ''u1''
   \<and> property idOnlyBody ''prompt'' = None
   \<and> property idOnlyBody ''referenceImageBase64'' = None
   \<and> \<not> canGenerateOf (fst (getUsageView ''u1'' exhaustedWorld))
   \<and> status (fst (post_reve_create_remove_bg reachable idOnlyBody exhaustedWorld)) = 402
   \<and> status (fst (post_reve_enhance examplePlatform reachable idOnlyBody exhaustedWorld)) = 402"
proof -
  have url: "fst (createLemonCheckoutUrl (lemon reachable) ''u1'' None exhaustedWorld) =
      Inr (CheckoutOk ''https://example.lemonsqueezy.com/checkout/1'')"
    by (simp add: createLemonCheckoutUrl_def exhausted_env reachable_def send_def)
  note c = quota_check_precedes_validation
    [where route = "post_reve_create_remove_bg reachable" and net = reachable
       and body = idOnlyBody and w = exhaustedWorld,
     OF disjI1 [OF refl] example_user(2) exhausted_view exhausted_denied]
  note e = quota_check_precedes_validation
    [where route = "post_reve_enhance examplePlatform reachable" and net = reachable
       and p = examplePlatform and body = idOnlyBody and w = exhaustedWorld,
     OF disjI2 [OF refl] example_user(2) exhausted_view exhausted_denied]
  have absent: "property idOnlyBody ''prompt'' = None"
    "property idOnlyBody ''referenceImageBase64'' = None"
    by (simp_all add: idOnlyBody_def)
  from c e url absent show ?thesis
    by (simp add: example_user exhausted_view exhausted_denied)
qed

text \<open>
  The claim as first stated promises the 402. At the same body, with a reference image
  missing, a checkout request that throws makes the answer a 500.
\<close>

theorem quota_check_checkout_throws:
  "getClientUserId idOnlyBody = Some ''u1''
   \<and> \<not> canGenerateOf (fst (getUsageView ''u1'' exhaustedWorld))
   \<and> property idOnlyBody ''referenceImageBase64'' = None
   \<and> status (fst (post_reve_enhance examplePlatform unreachable idOnlyBody exhaustedWorld)) = 500"
proof -
  have absent: "property idOnlyBody ''referenceImageBase64'' = None"
    by (simp add: idOnlyBody_def)
  then show ?thesis
    by (simp add: post_reve_enhance_def example_user exhausted_view exhausted_denied
        createLemonCheckoutUrl_def exhausted_env unreachable_def send_def)
qed

text \<open>
  C9 (as amended). Payloads that are no objects. Take a delivery whose signature
  verifies and whose body parses. If the payload is \<open>null\<close>, a boolean, a number or a
  string, the answer is the 400 with the message that the format is invalid, and nothing
  changes. If the payload is an array, it passes \<open>isObject\<close>, no event name is found in
  it, and the delivery is answered \<open>{ok: true, ignored: true}\<close>; nothing changes either.
\<close>

theorem webhook_rejects_non_object:
  assumes "verifyLemonSignature p rawBody (if truthy xsig then xsig else None) w = Inr True"
      and "jsonParse p rawBody = Some payload"
  shows "(payload = JNull \<or> (\<exists>b. payload = JBool b) \<or> (\<exists>n. payload = JNum n)
            \<or> (\<exists>s. payload = JStr s)
          \<longrightarrow> post_billing_lemon_webhook p (Some rawBody) xsig w =
                (WebhookBadRequest ''Webhook payload format is invalid.'', w))
       \<and> ((\<exists>items. payload = JArr items)
          \<longrightarrow> post_billing_lemon_webhook p (Some rawBody) xsig w = (WebhookOk True, w))"
  using assms
  by (auto simp: post_billing_lemon_webhook_def Let_def arrayIndex_meta)

text \<open>
  At the body \<open>null\<close>.
\<close>

theorem webhook_rejects_non_object_witness:
  "verifyLemonSignature examplePlatform ''null'' (if truthy None then None else None) emptyWorld
     = Inr True
   \<and> jsonParse examplePlatform ''null'' = Some JNull
   \<and> post_billing_lemon_webhook examplePlatform (Some ''null'') None emptyWorld =
       (WebhookBadRequest ''Webhook payload format is invalid.'', emptyWorld)
   \<and> webhookStatus (fst (post_billing_lemon_webhook examplePlatform (Some ''null'') None
        emptyWorld)) = Some 400"
proof -
  have v: "verifyLemonSignature examplePlatform ''null'' (if truthy None then None else None)
      emptyWorld = Inr True"
    by (simp add: verifyLemonSignature_def getLemonWebhookSecret_def getEnv_def emptyWorld_def)
  have j: "jsonParse examplePlatform ''null'' = Some JNull"
    by (simp add: examplePlatform_def exampleParse_def)
  from webhook_rejects_non_object [OF v j] v j show ?thesis by simp
qed

text \<open>
  The claim as first stated promises the 400 for every payload that is valid JSON and
  not a JSON object. The body \<open>[]\<close> is answered with a 200.
\<close>

theorem webhook_accepts_array:
  "verifyLemonSignature examplePlatform ''[]'' None emptyWorld = Inr True
   \<and> jsonParse examplePlatform ''[]'' = Some (JArr [])
   \<and> post_billing_lemon_webhook examplePlatform (Some ''[]'') None emptyWorld =
       (WebhookOk True, emptyWorld)
   \<and> webhookStatus (fst (post_billing_lemon_webhook examplePlatform (Some ''[]'') None
        emptyWorld)) = Some 200"
  by (simp add: post_billing_lemon_webhook_def verifyLemonSignature_def
      getLemonWebhookSecret_def getEnv_def emptyWorld_def examplePlatform_def exampleParse_def
      arrayIndex_meta)

text \<open>
  C10 (as amended). Every update stamps \<open>updatedAt\<close>. A mutator builds the new object
  from the properties of the one it is given; one that changes nothing copies them all.
  The local update returns the mutated object with \<open>updatedAt\<close> set to the last reading
  of the clock, a reading taken during the update, and the usage file holds it
  afterwards (when its \<open>users\<close> is no array and the mutator was given an entry of the file
  or the default record, not an inherited member). \<open>updateUsageRecord\<close> returns an object
  that carries the last reading of the clock, whichever backend serves it and whatever
  the mutator does. While one backend serves the update, a mutator that changes nothing
  leaves every other field as that backend held it: served by the usage file, the
  result is the object of the file after the mutator with the new \<open>updatedAt\<close>; served
  by the table, the result and the row afterwards are the record of the table with the
  new \<open>updatedAt\<close>.
\<close>

theorem update_overwrites_updatedAt:
  "(case updateLocalUsageRecord uid f w of (r, w') \<Rightarrow>
       r = (f (fieldsOf (localCurrent w uid)))\<lparr>updatedAtOf := Some (clock w (clockReads w' - 1))\<rparr>
     \<and> clockReads w < clockReads w'
     \<and> (usageFile w \<noteq> UsersArray
          \<and> (uid \<notin> set inheritedMembers \<or> localRecord w uid \<noteq> None) \<longrightarrow>
          localRecord w' uid = Some (dump r)))
   \<and> (case updateUsageRecord uid f w of (r, w') \<Rightarrow>
         updatedAtOf r = Some (clock w (clockReads w' - 1)) \<and> clockReads w < clockReads w'
       \<and> (servedLocally w \<longrightarrow>
            r = (f (fieldsOf (localCurrent w uid)))
                  \<lparr>updatedAtOf := Some (clock w (clockReads w' - 1))\<rparr>
          \<and> (f (fieldsOf (localCurrent w uid)) = fieldsOf (localCurrent w uid) \<longrightarrow>
               r = (fieldsOf (localCurrent w uid))
                     \<lparr>updatedAtOf := Some (clock w (clockReads w' - 1))\<rparr>)
          \<and> (uid \<notin> set inheritedMembers \<or> localRecord w uid \<noteq> None \<longrightarrow>
               localRecord w' uid = Some (dump r)))
       \<and> (servedRemotely w
            \<and> f (ofRecord (remoteCurrent w uid)) = ofRecord (remoteCurrent w uid) \<longrightarrow>
            r = ofRecord ((remoteCurrent w uid)\<lparr>updatedAt := clock w (clockReads w' - 1)\<rparr>)
          \<and> remoteRecord w' uid
              = Some ((remoteCurrent w uid)\<lparr>updatedAt := clock w (clockReads w' - 1)\<rparr>)))"
proof -
  obtain r1 w1 where l: "updateLocalUsageRecord uid f w = (r1, w1)"
    by (cases "updateLocalUsageRecord uid f w")
  obtain r w' where u: "updateUsageRecord uid f w = (r, w')"
    by (cases "updateUsageRecord uid f w")
  note a = updateLocal_effect [OF l]
  note b = update_any [OF u]
  have np: "uid \<noteq> ''__proto__''" if "uid \<notin> set inheritedMembers"
    using that by auto
  have c: "r = (f (fieldsOf (localCurrent w uid)))
                  \<lparr>updatedAtOf := Some (clock w (clockReads w' - 1))\<rparr>
          \<and> (uid \<notin> set inheritedMembers \<or> localRecord w uid \<noteq> None \<longrightarrow>
               localRecord w' uid = Some (dump r))"
    if "servedLocally w"
    using update_local [OF that u] np by auto
  have d: "r = ofRecord ((remoteCurrent w uid)\<lparr>updatedAt := clock w (clockReads w' - 1)\<rparr>)
          \<and> remoteRecord w' uid
              = Some ((remoteCurrent w uid)\<lparr>updatedAt := clock w (clockReads w' - 1)\<rparr>)"
    if R: "servedRemotely w" and same: "f (ofRecord (remoteCurrent w uid)) = ofRecord (remoteCurrent w uid)"
  proof -
    have cnt: "generatedCountOf (f (ofRecord (remoteCurrent w uid)))
        = Num (generatedCount (remoteCurrent w uid))"
      and sta: "billingStatusOf (f (ofRecord (remoteCurrent w uid)))
        = Some (billingStatus (remoteCurrent w uid))"
      unfolding same by (simp_all add: ofRecord_def)
    from R have t: "int4 (generatedCount (remoteCurrent w uid))"
      by (simp add: servedRemotely_def remoteCurrent_typed)
    from update_remote [OF R u cnt t sta]
    have r: "r = ofRecord
               \<lparr>userId = uid, generatedCount = generatedCount (remoteCurrent w uid),
                billingStatus = billingStatus (remoteCurrent w uid),
                lemonCustomerId = lemonCustomerIdOf (f (ofRecord (remoteCurrent w uid))),
                lemonSubscriptionId = lemonSubscriptionIdOf (f (ofRecord (remoteCurrent w uid))),
                updatedAt = clock w (clockReads w' - 1)\<rparr>"
      and st: "\<exists>stored. remoteRecord w' uid = Some stored \<and> r = ofRecord stored"
      by auto
    have eq: "\<lparr>userId = uid, generatedCount = generatedCount (remoteCurrent w uid),
                billingStatus = billingStatus (remoteCurrent w uid),
                lemonCustomerId = lemonCustomerIdOf (f (ofRecord (remoteCurrent w uid))),
                lemonSubscriptionId = lemonSubscriptionIdOf (f (ofRecord (remoteCurrent w uid))),
                updatedAt = clock w (clockReads w' - 1)\<rparr>
        = (remoteCurrent w uid)\<lparr>updatedAt := clock w (clockReads w' - 1)\<rparr>"
      unfolding same using remoteCurrent_userId [of w uid]
      by (cases "remoteCurrent w uid") (simp add: ofRecord_def)
    from r st eq show ?thesis by auto
  qed
  from a np have a': "r1 = (f (fieldsOf (localCurrent w uid)))
                  \<lparr>updatedAtOf := Some (clock w (clockReads w1 - 1))\<rparr>
     \<and> clockReads w < clockReads w1
     \<and> (usageFile w \<noteq> UsersArray
          \<and> (uid \<notin> set inheritedMembers \<or> localRecord w uid \<noteq> None) \<longrightarrow>
          localRecord w1 uid = Some (dump r1))"
    by auto
  from a' b c d l u show ?thesis by simp
qed

text \<open>
  At a remote store that works, and in the usage file, with a mutator that changes
  nothing.
\<close>

theorem update_overwrites_updatedAt_witness:
  "servedRemotely remoteWorld \<and> servedLocally emptyWorld
   \<and> remoteCurrent remoteWorld ''u1'' = freshRecord ''u1'' ''2026-01-01T00:00:00.000Z''
   \<and> fst (updateUsageRecord ''u1'' (\<lambda>r. r) remoteWorld)
       = ofRecord ((freshRecord ''u1'' ''2026-01-01T00:00:00.000Z'')
           \<lparr>updatedAt := clock remoteWorld
              (clockReads (snd (updateUsageRecord ''u1'' (\<lambda>r. r) remoteWorld)) - 1)\<rparr>)
   \<and> fst (updateUsageRecord ''u1'' (\<lambda>r. r) emptyWorld)
       = (ofRecord (freshRecord ''u1'' ''2026-01-01T00:00:00.000Z''))
           \<lparr>updatedAtOf := Some (clock emptyWorld
              (clockReads (snd (updateUsageRecord ''u1'' (\<lambda>r. r) emptyWorld)) - 1))\<rparr>
   \<and> localRecord (snd (updateUsageRecord ''u1'' (\<lambda>r. r) emptyWorld)) ''u1''
       = Some (dump (fst (updateUsageRecord ''u1'' (\<lambda>r. r) emptyWorld)))"
proof -
  have h: "servedRemotely remoteWorld" "servedLocally emptyWorld"
    by (simp_all add: servedRemotely_def servedLocally_def tableTyped_def remoteWorld_def
        emptyWorld_def)
  have c: "remoteCurrent remoteWorld ''u1'' = freshRecord ''u1'' ''2026-01-01T00:00:00.000Z''"
    "localCurrent emptyWorld ''u1'' = Plain (ofRecord (freshRecord ''u1'' ''2026-01-01T00:00:00.000Z''))"
    by (simp_all add: remoteCurrent_def remoteRecord_def localCurrent_def localRecord_def
        selectRow_def remoteWorld_def emptyWorld_def exampleClock_def u1_ordinary)
  note np = u1_ordinary
  note r = update_overwrites_updatedAt [where uid = "''u1''" and f = "\<lambda>r. r" and w = remoteWorld]
  note e = update_overwrites_updatedAt [where uid = "''u1''" and f = "\<lambda>r. r" and w = emptyWorld]
  from r e h c np show ?thesis by (simp add: split_beta)
qed

text \<open>
  The claim as first stated lets a mutator that changes nothing leave every field but
  \<open>updatedAt\<close> unchanged on every update. Here the table holds a subscriber with five
  generations and the remote read of the update fails: the mutator is applied to the
  default record of the usage file, and the upsert, which succeeds, overwrites the row
  with zero generations, the free status and no customer.
\<close>

theorem noop_update_rewrites_row:
  "remoteRecord flakyWorld ''u1'' = Some (mapDbUsageRowToUsageRecord subscriberRow)
   \<and> fst (updateUsageRecord ''u1'' (\<lambda>r. r) flakyWorld)
       = ofRecord ((freshRecord ''u1'' ''2026-01-01T00:00:00.000Z'')
                     \<lparr>updatedAt := ''2026-01-01T00:00:01.000Z''\<rparr>)
   \<and> remoteRecord (snd (updateUsageRecord ''u1'' (\<lambda>r. r) flakyWorld)) ''u1''
       = Some ((freshRecord ''u1'' ''2026-01-01T00:00:00.000Z'')
                 \<lparr>updatedAt := ''2026-01-01T00:00:01.000Z''\<rparr>)"
  by (simp add: eval_defs flakyWorld_def subscriberRow_def)

end
